theory Spec2Isabelle
  imports Complex_Main
begin

section \<open>Row normalisation of the transform stage (src/transform.py)\<close>

text \<open>
  The theory embeds the pure part of \<^verbatim>\<open>src/transform.py\<close>: the helpers
  \<^verbatim>\<open>_safe_float\<close>, \<^verbatim>\<open>_parse_duration\<close>, \<^verbatim>\<open>_popularity_tier\<close>,
  \<^verbatim>\<open>_danceability_label\<close>, \<^verbatim>\<open>_energy_label\<close>, \<^verbatim>\<open>_explicit_label\<close>,
  \<^verbatim>\<open>_pick\<close> and the row function \<^verbatim>\<open>_transform_row\<close>. An Isabelle name cannot
  start with an underscore, so each function keeps its Python name without the leading
  underscore.
\<close>

subsection \<open>Python strings\<close>

text \<open>
  A Python \<^verbatim>\<open>str\<close> is a sequence of Unicode code points, so it is modelled as a list of
  natural numbers (one per code point), not as a list of bytes: the byte-order mark
  \<^verbatim>\<open>U+FEFF\<close> is one element. \<open>u\<close> writes an ASCII literal.
\<close>

type_synonym ustr = "nat list"

definition u :: "string \<Rightarrow> ustr" where
  "u s = map of_char s"

definition BOM :: nat where
  "BOM = 65279"

text \<open>
  \<^verbatim>\<open>str.strip()\<close> without argument removes the code points for which
  \<^verbatim>\<open>str.isspace()\<close> holds, at both ends. The set below is CPython's
  (\<^verbatim>\<open>_Py_ascii_whitespace\<close> and \<^verbatim>\<open>_PyUnicode_IsWhitespace\<close>).
\<close>

definition isspace :: "nat \<Rightarrow> bool" where
  "isspace c = ((9 \<le> c \<and> c \<le> 13) \<or> (28 \<le> c \<and> c \<le> 32) \<or> c = 133 \<or> c = 160
     \<or> c = 5760 \<or> (8192 \<le> c \<and> c \<le> 8202) \<or> c = 8232 \<or> c = 8233 \<or> c = 8239
     \<or> c = 8287 \<or> c = 12288)"

definition strip :: "ustr \<Rightarrow> ustr" where
  "strip s = rev (dropWhile isspace (rev (dropWhile isspace s)))"

text \<open>
  \<^verbatim>\<open>str.lower()\<close>, as CPython does it (\<^verbatim>\<open>do_lower\<close>), with the tables of
  Unicode 14, which CPython 3.11 carries.

  A code point with a lowercase form of one code point is in one run of \<open>lower_runs\<close>:
  a run \<open>(lo, hi, step, tlo)\<close> holds the code points \<open>lo\<close>, \<open>lo + step\<close>, ... up to
  \<open>hi\<close>, and the lowercase form of \<open>c\<close> there is \<open>tlo + (c - lo)\<close>. The runs have no code
  point in common. They are listed in ten groups; within a group the code points ascend
  and so do their lowercase forms. The one code point whose lowercase form has two code
  points is U+0130 (304). Every other code point is its own lowercase form.
\<close>

definition lower_chains :: "(nat \<times> nat \<times> nat \<times> nat) list list" where
  "lower_chains =
     [[(65, 90, 1, 97), (192, 214, 1, 224), (216, 222, 1, 248), (256, 302, 2, 257),
       (306, 310, 2, 307), (313, 327, 2, 314), (330, 374, 2, 331), (377, 381, 2, 378),
       (385, 385, 1, 595), (390, 390, 1, 596), (393, 394, 1, 598), (399, 399, 1, 601),
       (400, 400, 1, 603), (403, 403, 1, 608), (404, 404, 1, 611), (406, 406, 1, 617),
       (412, 412, 1, 623), (413, 413, 1, 626), (415, 415, 1, 629), (422, 422, 1, 640),
       (425, 425, 1, 643), (430, 430, 1, 648), (433, 434, 1, 650), (439, 439, 1, 658),
       (570, 570, 1, 11365), (574, 574, 1, 11366), (4256, 4293, 1, 11520),
       (4295, 4295, 1, 11559), (4301, 4301, 1, 11565), (5024, 5103, 1, 43888),
       (65313, 65338, 1, 65345), (66560, 66599, 1, 66600), (66736, 66771, 1, 66776),
       (66928, 66938, 1, 66967), (66940, 66954, 1, 66979), (66956, 66962, 1, 66995),
       (66964, 66965, 1, 67003), (68736, 68786, 1, 68800), (71840, 71871, 1, 71872),
       (93760, 93791, 1, 93792), (125184, 125217, 1, 125218)],
      [(376, 376, 1, 255), (386, 388, 2, 387), (391, 391, 1, 392), (395, 395, 1, 396),
       (398, 398, 1, 477), (407, 407, 1, 616), (580, 580, 1, 649), (581, 581, 1, 652),
       (880, 882, 2, 881), (886, 886, 1, 887), (895, 895, 1, 1011), (1015, 1015, 1, 1016),
       (1018, 1018, 1, 1019), (1024, 1039, 1, 1104), (1120, 1152, 2, 1121),
       (1162, 1214, 2, 1163), (1216, 1216, 1, 1231), (1232, 1326, 2, 1233),
       (1329, 1366, 1, 1377), (5104, 5109, 1, 5112), (7680, 7828, 2, 7681),
       (7840, 7934, 2, 7841), (7944, 7951, 1, 7936), (7960, 7965, 1, 7952),
       (7976, 7983, 1, 7968), (7992, 7999, 1, 7984), (8008, 8013, 1, 8000),
       (8025, 8031, 2, 8017), (8040, 8047, 1, 8032), (8072, 8079, 1, 8064),
       (8088, 8095, 1, 8080), (8104, 8111, 1, 8096), (8120, 8121, 1, 8112),
       (8124, 8124, 1, 8115), (8140, 8140, 1, 8131), (8152, 8153, 1, 8144),
       (8168, 8169, 1, 8160), (8172, 8172, 1, 8165), (8188, 8188, 1, 8179),
       (8498, 8498, 1, 8526), (8544, 8559, 1, 8560), (8579, 8579, 1, 8580),
       (9398, 9423, 1, 9424), (11264, 11311, 1, 11312), (11360, 11360, 1, 11361),
       (11367, 11371, 2, 11368), (11378, 11378, 1, 11379), (11381, 11381, 1, 11382),
       (11392, 11490, 2, 11393), (11499, 11501, 2, 11500), (11506, 11506, 1, 11507),
       (42560, 42604, 2, 42561), (42624, 42650, 2, 42625), (42786, 42798, 2, 42787),
       (42802, 42862, 2, 42803), (42873, 42875, 2, 42874), (42878, 42886, 2, 42879),
       (42891, 42891, 1, 42892), (42896, 42898, 2, 42897), (42902, 42920, 2, 42903),
       (42931, 42931, 1, 43859)],
      [(401, 401, 1, 402), (408, 408, 1, 409), (416, 420, 2, 417), (423, 423, 1, 424),
       (428, 428, 1, 429), (431, 431, 1, 432), (435, 437, 2, 436), (440, 440, 1, 441),
       (444, 444, 1, 445), (452, 452, 1, 454), (455, 455, 1, 457), (458, 458, 1, 460),
       (498, 500, 2, 499), (504, 542, 2, 505), (546, 562, 2, 547), (571, 571, 1, 572),
       (577, 577, 1, 578), (582, 590, 2, 583), (902, 902, 1, 940), (904, 906, 1, 941),
       (908, 908, 1, 972), (910, 911, 1, 973), (975, 975, 1, 983), (984, 1006, 2, 985),
       (1017, 1017, 1, 1010), (1040, 1071, 1, 1072), (1217, 1229, 2, 1218),
       (7312, 7354, 1, 4304), (7357, 7359, 1, 4349), (8122, 8123, 1, 8048),
       (8136, 8139, 1, 8050), (8154, 8155, 1, 8054), (8170, 8171, 1, 8058),
       (8186, 8187, 1, 8060), (42932, 42946, 2, 42933), (42951, 42953, 2, 42952),
       (42960, 42960, 1, 42961), (42966, 42968, 2, 42967), (42997, 42997, 1, 42998)],
      [(453, 453, 1, 454), (456, 456, 1, 457), (459, 475, 2, 460), (478, 494, 2, 479),
       (497, 497, 1, 499), (913, 929, 1, 945), (931, 939, 1, 963), (8184, 8185, 1, 8056),
       (42948, 42948, 1, 42900)],
      [(502, 502, 1, 405), (503, 503, 1, 447), (1012, 1012, 1, 952), (8486, 8486, 1, 969),
       (11363, 11363, 1, 7549), (42950, 42950, 1, 7566)],
      [(544, 544, 1, 414), (1021, 1023, 1, 891), (42877, 42877, 1, 7545)],
      [(573, 573, 1, 410), (11362, 11362, 1, 619), (11364, 11364, 1, 637),
       (42928, 42928, 1, 670)],
      [(579, 579, 1, 384), (11373, 11373, 1, 593), (11374, 11374, 1, 625),
       (42929, 42929, 1, 647), (42930, 42930, 1, 669)],
      [(7838, 7838, 1, 223), (8491, 8491, 1, 229), (11375, 11375, 1, 592),
       (11376, 11376, 1, 594), (42893, 42893, 1, 613), (42922, 42922, 1, 614),
       (42925, 42925, 1, 620), (42949, 42949, 1, 642)],
      [(8490, 8490, 1, 107), (11390, 11391, 1, 575), (42923, 42923, 1, 604),
       (42924, 42924, 1, 609), (42926, 42926, 1, 618)]]"

definition lower_runs :: "(nat \<times> nat \<times> nat \<times> nat) list" where
  "lower_runs = concat lower_chains"

definition in_run :: "nat \<Rightarrow> nat \<times> nat \<times> nat \<times> nat \<Rightarrow> bool" where
  "in_run c r = (case r of (lo, hi, step, tlo) \<Rightarrow> lo \<le> c \<and> c \<le> hi \<and> (c - lo) mod step = 0)"

definition lower_full :: "nat \<Rightarrow> ustr" where
  "lower_full c =
     (if c = 304 then [105, 775]
      else (case find (in_run c) lower_runs of
              None \<Rightarrow> [c]
            | Some (lo, hi, step, tlo) \<Rightarrow> [tlo + (c - lo)]))"

text \<open>
  The capital sigma (931) becomes the final small sigma (962) when a cased letter stands
  before it, case-ignorable code points apart, and none stands after it in the same way;
  it becomes the small sigma (963) otherwise. \<open>case_ignorable_runs\<close> holds the ranges of
  the case-ignorable code points and \<open>cased_runs\<close> those of the cased code points that
  are not case-ignorable (the property is only read of such a code point).
\<close>

definition case_ignorable_runs :: "(nat \<times> nat) list" where
  "case_ignorable_runs =
     [(39, 39), (46, 46), (58, 58), (94, 94), (96, 96), (168, 168), (173, 173), (175, 175),
      (180, 180), (183, 184), (688, 879), (884, 885), (890, 890), (900, 901), (903, 903),
      (1155, 1161), (1369, 1369), (1375, 1375), (1425, 1469), (1471, 1471), (1473, 1474),
      (1476, 1477), (1479, 1479), (1524, 1524), (1536, 1541), (1552, 1562), (1564, 1564),
      (1600, 1600), (1611, 1631), (1648, 1648), (1750, 1757), (1759, 1768), (1770, 1773),
      (1807, 1807), (1809, 1809), (1840, 1866), (1958, 1968), (2027, 2037), (2042, 2042),
      (2045, 2045), (2070, 2093), (2137, 2139), (2184, 2184), (2192, 2193), (2200, 2207),
      (2249, 2306), (2362, 2362), (2364, 2364), (2369, 2376), (2381, 2381), (2385, 2391),
      (2402, 2403), (2417, 2417), (2433, 2433), (2492, 2492), (2497, 2500), (2509, 2509),
      (2530, 2531), (2558, 2558), (2561, 2562), (2620, 2620), (2625, 2626), (2631, 2632),
      (2635, 2637), (2641, 2641), (2672, 2673), (2677, 2677), (2689, 2690), (2748, 2748),
      (2753, 2757), (2759, 2760), (2765, 2765), (2786, 2787), (2810, 2815), (2817, 2817),
      (2876, 2876), (2879, 2879), (2881, 2884), (2893, 2893), (2901, 2902), (2914, 2915),
      (2946, 2946), (3008, 3008), (3021, 3021), (3072, 3072), (3076, 3076), (3132, 3132),
      (3134, 3136), (3142, 3144), (3146, 3149), (3157, 3158), (3170, 3171), (3201, 3201),
      (3260, 3260), (3263, 3263), (3270, 3270), (3276, 3277), (3298, 3299), (3328, 3329),
      (3387, 3388), (3393, 3396), (3405, 3405), (3426, 3427), (3457, 3457), (3530, 3530),
      (3538, 3540), (3542, 3542), (3633, 3633), (3636, 3642), (3654, 3662), (3761, 3761),
      (3764, 3772), (3782, 3782), (3784, 3789), (3864, 3865), (3893, 3893), (3895, 3895),
      (3897, 3897), (3953, 3966), (3968, 3972), (3974, 3975), (3981, 3991), (3993, 4028),
      (4038, 4038), (4141, 4144), (4146, 4151), (4153, 4154), (4157, 4158), (4184, 4185),
      (4190, 4192), (4209, 4212), (4226, 4226), (4229, 4230), (4237, 4237), (4253, 4253),
      (4348, 4348), (4957, 4959), (5906, 5908), (5938, 5939), (5970, 5971), (6002, 6003),
      (6068, 6069), (6071, 6077), (6086, 6086), (6089, 6099), (6103, 6103), (6109, 6109),
      (6155, 6159), (6211, 6211), (6277, 6278), (6313, 6313), (6432, 6434), (6439, 6440),
      (6450, 6450), (6457, 6459), (6679, 6680), (6683, 6683), (6742, 6742), (6744, 6750),
      (6752, 6752), (6754, 6754), (6757, 6764), (6771, 6780), (6783, 6783), (6823, 6823),
      (6832, 6862), (6912, 6915), (6964, 6964), (6966, 6970), (6972, 6972), (6978, 6978),
      (7019, 7027), (7040, 7041), (7074, 7077), (7080, 7081), (7083, 7085), (7142, 7142),
      (7144, 7145), (7149, 7149), (7151, 7153), (7212, 7219), (7222, 7223), (7288, 7293),
      (7376, 7378), (7380, 7392), (7394, 7400), (7405, 7405), (7412, 7412), (7416, 7417),
      (7468, 7530), (7544, 7544), (7579, 7679), (8125, 8125), (8127, 8129), (8141, 8143),
      (8157, 8159), (8173, 8175), (8189, 8190), (8203, 8207), (8216, 8217), (8228, 8228),
      (8231, 8231), (8234, 8238), (8288, 8292), (8294, 8303), (8305, 8305), (8319, 8319),
      (8336, 8348), (8400, 8432), (11388, 11389), (11503, 11505), (11631, 11631),
      (11647, 11647), (11744, 11775), (11823, 11823), (12293, 12293), (12330, 12333),
      (12337, 12341), (12347, 12347), (12441, 12446), (12540, 12542), (40981, 40981),
      (42232, 42237), (42508, 42508), (42607, 42610), (42612, 42621), (42623, 42623),
      (42652, 42655), (42736, 42737), (42752, 42785), (42864, 42864), (42888, 42890),
      (42994, 42996), (43000, 43001), (43010, 43010), (43014, 43014), (43019, 43019),
      (43045, 43046), (43052, 43052), (43204, 43205), (43232, 43249), (43263, 43263),
      (43302, 43309), (43335, 43345), (43392, 43394), (43443, 43443), (43446, 43449),
      (43452, 43453), (43471, 43471), (43493, 43494), (43561, 43566), (43569, 43570),
      (43573, 43574), (43587, 43587), (43596, 43596), (43632, 43632), (43644, 43644),
      (43696, 43696), (43698, 43700), (43703, 43704), (43710, 43711), (43713, 43713),
      (43741, 43741), (43756, 43757), (43763, 43764), (43766, 43766), (43867, 43871),
      (43881, 43883), (44005, 44005), (44008, 44008), (44013, 44013), (64286, 64286),
      (64434, 64450), (65024, 65039), (65043, 65043), (65056, 65071), (65106, 65106),
      (65109, 65109), (65279, 65279), (65287, 65287), (65294, 65294), (65306, 65306),
      (65342, 65342), (65344, 65344), (65392, 65392), (65438, 65439), (65507, 65507),
      (65529, 65531), (66045, 66045), (66272, 66272), (66422, 66426), (67456, 67461),
      (67463, 67504), (67506, 67514), (68097, 68099), (68101, 68102), (68108, 68111),
      (68152, 68154), (68159, 68159), (68325, 68326), (68900, 68903), (69291, 69292),
      (69446, 69456), (69506, 69509), (69633, 69633), (69688, 69702), (69744, 69744),
      (69747, 69748), (69759, 69761), (69811, 69814), (69817, 69818), (69821, 69821),
      (69826, 69826), (69837, 69837), (69888, 69890), (69927, 69931), (69933, 69940),
      (70003, 70003), (70016, 70017), (70070, 70078), (70089, 70092), (70095, 70095),
      (70191, 70193), (70196, 70196), (70198, 70199), (70206, 70206), (70367, 70367),
      (70371, 70378), (70400, 70401), (70459, 70460), (70464, 70464), (70502, 70508),
      (70512, 70516), (70712, 70719), (70722, 70724), (70726, 70726), (70750, 70750),
      (70835, 70840), (70842, 70842), (70847, 70848), (70850, 70851), (71090, 71093),
      (71100, 71101), (71103, 71104), (71132, 71133), (71219, 71226), (71229, 71229),
      (71231, 71232), (71339, 71339), (71341, 71341), (71344, 71349), (71351, 71351),
      (71453, 71455), (71458, 71461), (71463, 71467), (71727, 71735), (71737, 71738),
      (71995, 71996), (71998, 71998), (72003, 72003), (72148, 72151), (72154, 72155),
      (72160, 72160), (72193, 72202), (72243, 72248), (72251, 72254), (72263, 72263),
      (72273, 72278), (72281, 72283), (72330, 72342), (72344, 72345), (72752, 72758),
      (72760, 72765), (72767, 72767), (72850, 72871), (72874, 72880), (72882, 72883),
      (72885, 72886), (73009, 73014), (73018, 73018), (73020, 73021), (73023, 73029),
      (73031, 73031), (73104, 73105), (73109, 73109), (73111, 73111), (73459, 73460),
      (78896, 78904), (92912, 92916), (92976, 92982), (92992, 92995), (94031, 94031),
      (94095, 94111), (94176, 94177), (94179, 94180), (110576, 110579), (110581, 110587),
      (110589, 110590), (113821, 113822), (113824, 113827), (118528, 118573),
      (118576, 118598), (119143, 119145), (119155, 119170), (119173, 119179),
      (119210, 119213), (119362, 119364), (121344, 121398), (121403, 121452),
      (121461, 121461), (121476, 121476), (121499, 121503), (121505, 121519),
      (122880, 122886), (122888, 122904), (122907, 122913), (122915, 122916),
      (122918, 122922), (123184, 123197), (123566, 123566), (123628, 123631),
      (125136, 125142), (125252, 125259), (127995, 127999), (917505, 917505),
      (917536, 917631), (917760, 917999)]"

definition cased_runs :: "(nat \<times> nat) list" where
  "cased_runs =
     [(65, 90), (97, 122), (170, 170), (181, 181), (186, 186), (192, 214), (216, 246),
      (248, 442), (444, 447), (452, 659), (661, 687), (880, 883), (886, 887), (891, 893),
      (895, 895), (902, 902), (904, 906), (908, 908), (910, 929), (931, 1013),
      (1015, 1153), (1162, 1327), (1329, 1366), (1376, 1416), (4256, 4293), (4295, 4295),
      (4301, 4301), (4304, 4346), (4349, 4351), (5024, 5109), (5112, 5117), (7296, 7304),
      (7312, 7354), (7357, 7359), (7424, 7467), (7531, 7543), (7545, 7578), (7680, 7957),
      (7960, 7965), (7968, 8005), (8008, 8013), (8016, 8023), (8025, 8025), (8027, 8027),
      (8029, 8029), (8031, 8061), (8064, 8116), (8118, 8124), (8126, 8126), (8130, 8132),
      (8134, 8140), (8144, 8147), (8150, 8155), (8160, 8172), (8178, 8180), (8182, 8188),
      (8450, 8450), (8455, 8455), (8458, 8467), (8469, 8469), (8473, 8477), (8484, 8484),
      (8486, 8486), (8488, 8488), (8490, 8493), (8495, 8500), (8505, 8505), (8508, 8511),
      (8517, 8521), (8526, 8526), (8544, 8575), (8579, 8580), (9398, 9449), (11264, 11387),
      (11390, 11492), (11499, 11502), (11506, 11507), (11520, 11557), (11559, 11559),
      (11565, 11565), (42560, 42605), (42624, 42651), (42786, 42863), (42865, 42887),
      (42891, 42894), (42896, 42954), (42960, 42961), (42963, 42963), (42965, 42969),
      (42997, 42998), (43002, 43002), (43824, 43866), (43872, 43880), (43888, 43967),
      (64256, 64262), (64275, 64279), (65313, 65338), (65345, 65370), (66560, 66639),
      (66736, 66771), (66776, 66811), (66928, 66938), (66940, 66954), (66956, 66962),
      (66964, 66965), (66967, 66977), (66979, 66993), (66995, 67001), (67003, 67004),
      (68736, 68786), (68800, 68850), (71840, 71903), (93760, 93823), (119808, 119892),
      (119894, 119964), (119966, 119967), (119970, 119970), (119973, 119974),
      (119977, 119980), (119982, 119993), (119995, 119995), (119997, 120003),
      (120005, 120069), (120071, 120074), (120077, 120084), (120086, 120092),
      (120094, 120121), (120123, 120126), (120128, 120132), (120134, 120134),
      (120138, 120144), (120146, 120485), (120488, 120512), (120514, 120538),
      (120540, 120570), (120572, 120596), (120598, 120628), (120630, 120654),
      (120656, 120686), (120688, 120712), (120714, 120744), (120746, 120770),
      (120772, 120779), (122624, 122633), (122635, 122654), (125184, 125251),
      (127280, 127305), (127312, 127337), (127344, 127369)]"

definition in_range :: "nat \<Rightarrow> nat \<times> nat \<Rightarrow> bool" where
  "in_range c r = (fst r \<le> c \<and> c \<le> snd r)"

definition case_ignorable :: "nat \<Rightarrow> bool" where
  "case_ignorable c = list_ex (in_range c) case_ignorable_runs"

definition cased :: "nat \<Rightarrow> bool" where
  "cased c = list_ex (in_range c) cased_runs"

text \<open>\<open>before\<close> is the part of the string before the sigma, the nearest code point first.\<close>

definition final_sigma :: "ustr \<Rightarrow> ustr \<Rightarrow> bool" where
  "final_sigma before after =
     ((case dropWhile case_ignorable before of [] \<Rightarrow> False | c # _ \<Rightarrow> cased c)
      \<and> (case dropWhile case_ignorable after of [] \<Rightarrow> True | c # _ \<Rightarrow> \<not> cased c))"

definition lower_at :: "ustr \<Rightarrow> nat \<Rightarrow> ustr \<Rightarrow> ustr" where
  "lower_at before c after =
     (if c = 931 then [if final_sigma before after then 962 else 963] else lower_full c)"

fun lower_from :: "ustr \<Rightarrow> ustr \<Rightarrow> ustr" where
  "lower_from before [] = []"
| "lower_from before (c # cs) = lower_at before c cs @ lower_from (c # before) cs"

definition lower :: "ustr \<Rightarrow> ustr" where
  "lower s = lower_from [] s"

text \<open>\<^verbatim>\<open>s.split(":")\<close>: the pieces between the separators, always at least one.\<close>

fun split :: "nat \<Rightarrow> ustr \<Rightarrow> ustr list" where
  "split sep [] = [[]]"
| "split sep (c # cs) =
     (if c = sep then [] # split sep cs
      else (case split sep cs of [] \<Rightarrow> [[c]] | p # ps \<Rightarrow> (c # p) # ps))"

subsection \<open>Python floats\<close>

text \<open>
  A \<^verbatim>\<open>float\<close> is an IEEE 754 binary64 value: a signed finite value (the sign is kept
  apart, so that \<open>-0.0\<close> is \<open>Finite True 0\<close>), a signed infinity, or a NaN. The magnitude
  of a finite value is a non-negative real number; every operation rounds its exact
  result to the nearest binary64 value, ties to even.
\<close>

datatype pyfloat = Finite bool real | Infinity bool | NaN

definition pow2 :: "int \<Rightarrow> real" where
  "pow2 k = (if 0 \<le> k then 2 ^ nat k else 1 / 2 ^ nat (- k))"

text \<open>The number of binary digits of a positive integer.\<close>

function bit_length :: "int \<Rightarrow> nat" where
  "bit_length n = (if n \<le> 0 then 0 else Suc (bit_length (n div 2)))"
  by pat_completeness auto
termination
  by (relation "measure nat") auto

declare bit_length.simps [simp del]

text \<open>
  For \<open>0 < q\<close>, the exponent \<open>e\<close> with \<open>2 ^ e \<le> q < 2 ^ (e + 1)\<close>: from the binary
  digits of the integer part when \<open>1 \<le> q\<close>, and of the reciprocal rounded up otherwise.
\<close>

definition floor_log2 :: "real \<Rightarrow> int" where
  "floor_log2 q =
     (if 1 \<le> q then int (bit_length \<lfloor>q\<rfloor>) - 1
      else - int (bit_length (\<lceil>1 / q\<rceil> - 1)))"

definition round_half_even :: "real \<Rightarrow> int" where
  "round_half_even x =
     (let f = \<lfloor>x\<rfloor>; d = x - of_int f
      in if d < 1 / 2 then f
         else if 1 / 2 < d then f + 1
         else if even f then f else f + 1)"

text \<open>
  Rounding of a magnitude \<open>0 \<le> q\<close> with sign \<open>sg\<close>: 53 significant bits, the least
  exponent of a normal number is \<open>-1022\<close> (below it the spacing stays \<open>2 ^ -1074\<close>), and
  a rounded value of \<open>2 ^ 1024\<close> or more is an infinity.
\<close>

definition round_binary64 :: "bool \<Rightarrow> real \<Rightarrow> pyfloat" where
  "round_binary64 sg q =
     (if q = 0 then Finite sg 0
      else
        (let p = max (floor_log2 q) (- 1022) - 52;
             r = of_int (round_half_even (q / pow2 p)) * pow2 p
         in if pow2 1024 \<le> r then Infinity sg else Finite sg r))"

definition signed :: "bool \<Rightarrow> real \<Rightarrow> real" where
  "signed sg q = (if sg then - q else q)"

text \<open>The exact result \<open>x\<close> of an operation, rounded; \<open>z\<close> is the sign of a zero result.\<close>

definition of_exact :: "real \<Rightarrow> bool \<Rightarrow> pyfloat" where
  "of_exact x z = (if x = 0 then Finite z 0 else round_binary64 (x < 0) \<bar>x\<bar>)"

fun float_add :: "pyfloat \<Rightarrow> pyfloat \<Rightarrow> pyfloat" where
  "float_add NaN y = NaN"
| "float_add x NaN = NaN"
| "float_add (Infinity s) (Infinity t) = (if s = t then Infinity s else NaN)"
| "float_add (Infinity s) (Finite t b) = Infinity s"
| "float_add (Finite s a) (Infinity t) = Infinity t"
| "float_add (Finite s a) (Finite t b) = of_exact (signed s a + signed t b) (s \<and> t)"

fun float_mul :: "pyfloat \<Rightarrow> pyfloat \<Rightarrow> pyfloat" where
  "float_mul NaN y = NaN"
| "float_mul x NaN = NaN"
| "float_mul (Infinity s) (Infinity t) = Infinity (s \<noteq> t)"
| "float_mul (Infinity s) (Finite t b) = (if b = 0 then NaN else Infinity (s \<noteq> t))"
| "float_mul (Finite s a) (Infinity t) = (if a = 0 then NaN else Infinity (s \<noteq> t))"
| "float_mul (Finite s a) (Finite t b) = round_binary64 (s \<noteq> t) (a * b)"

datatype pyerror = KeyError | ValueError | TypeError | ZeroDivisionError

text \<open>\<^verbatim>\<open>x / y\<close> on floats raises \<^verbatim>\<open>ZeroDivisionError\<close> when \<open>y\<close> is a zero.\<close>

fun float_truediv :: "pyfloat \<Rightarrow> pyfloat \<Rightarrow> pyerror + pyfloat" where
  "float_truediv x (Finite t b) =
     (if b = 0 then Inl ZeroDivisionError
      else (case x of
              NaN \<Rightarrow> Inr NaN
            | Infinity s \<Rightarrow> Inr (Infinity (s \<noteq> t))
            | Finite s a \<Rightarrow> Inr (round_binary64 (s \<noteq> t) (a / b))))"
| "float_truediv x NaN = Inr NaN"
| "float_truediv x (Infinity t) =
     (case x of
        NaN \<Rightarrow> Inr NaN
      | Infinity s \<Rightarrow> Inr NaN
      | Finite s a \<Rightarrow> Inr (Finite (s \<noteq> t) 0))"

text \<open>
  The comparisons of a float with an integer constant (\<^verbatim>\<open>p >= 70\<close>, \<^verbatim>\<open>ms > 1000\<close>,
  \<^verbatim>\<open>val != 0\<close>) are exact in Python; each comparison with a NaN is false, except
  \<^verbatim>\<open>!=\<close>.
\<close>

fun float_ge_int :: "pyfloat \<Rightarrow> int \<Rightarrow> bool" where
  "float_ge_int (Finite s a) n = (of_int n \<le> signed s a)"
| "float_ge_int (Infinity s) n = (\<not> s)"
| "float_ge_int NaN n = False"

fun float_gt_int :: "pyfloat \<Rightarrow> int \<Rightarrow> bool" where
  "float_gt_int (Finite s a) n = (of_int n < signed s a)"
| "float_gt_int (Infinity s) n = (\<not> s)"
| "float_gt_int NaN n = False"

fun float_ne_int :: "pyfloat \<Rightarrow> int \<Rightarrow> bool" where
  "float_ne_int (Finite s a) n = (signed s a \<noteq> of_int n)"
| "float_ne_int (Infinity s) n = True"
| "float_ne_int NaN n = True"

text \<open>A float literal of the source, such as \<^verbatim>\<open>60.0\<close>, given by its exact decimal value.\<close>

definition float_lit :: "real \<Rightarrow> pyfloat" where
  "float_lit x = of_exact x False"

subsection \<open>The builtin float on a string\<close>

text \<open>
  \<^verbatim>\<open>float(s)\<close> for a \<^verbatim>\<open>str\<close>, as CPython's \<^verbatim>\<open>PyFloat_FromString\<close> does it:
  \<^enum> a code point beyond ASCII that is whitespace becomes a space, one that is a decimal
    digit of another script becomes the ASCII digit of its value, and any other code
    point beyond ASCII becomes \<^verbatim>\<open>?\<close>, which no number contains;
  \<^enum> underscores are removed; each one must stand between two digits;
  \<^enum> ASCII whitespace (tab, line feed, vertical tab, form feed, carriage return, space)
    is removed at both ends;
  \<^enum> what is left must be, as a whole, an optional sign followed by \<^verbatim>\<open>inf\<close>,
    \<^verbatim>\<open>infinity\<close> or \<^verbatim>\<open>nan\<close> in any case, or by a decimal number: digits with an optional
    point, at least one digit, and an optional exponent \<^verbatim>\<open>e\<close> or \<^verbatim>\<open>E\<close> with an optional
    sign and at least one digit.
  The decimal value is rounded to binary64. A string that does not fit raises
  \<^verbatim>\<open>ValueError\<close>.

  The decimal digits beyond ASCII come in runs of ten, from the digit zero on;
  \<open>decimal_zeros\<close> lists the code point of each digit zero (Unicode 14, the table of
  CPython 3.11).
\<close>

definition decimal_zeros :: "nat list" where
  "decimal_zeros =
     [1632, 1776, 1984, 2406, 2534, 2662, 2790, 2918, 3046, 3174, 3302, 3430, 3558, 3664,
      3792, 3872, 4160, 4240, 6112, 6160, 6470, 6608, 6784, 6800, 6992, 7088, 7232, 7248,
      42528, 43216, 43264, 43472, 43504, 43600, 44016, 65296, 66720, 68912, 69734, 69872,
      69942, 70096, 70384, 70736, 70864, 71248, 71360, 71472, 71904, 72016, 72784, 73040,
      73120, 92768, 92864, 93008, 120782, 120792, 120802, 120812, 120822, 123200, 123632,
      125264, 130032]"

definition to_ascii_cp :: "nat \<Rightarrow> nat" where
  "to_ascii_cp c =
     (if c < 128 then c
      else if isspace c then 32
      else (case find (\<lambda>z. z \<le> c \<and> c < z + 10) decimal_zeros of
              Some z \<Rightarrow> 48 + (c - z)
            | None \<Rightarrow> 63))"

definition to_ascii :: "ustr \<Rightarrow> ustr" where
  "to_ascii s = map to_ascii_cp s"

definition is_digit :: "nat \<Rightarrow> bool" where
  "is_digit c = (48 \<le> c \<and> c \<le> 57)"

text \<open>
  The pass over the underscores; \<open>prev\<close> is the code point before, 0 at the start.
  The result is the string without them, or \<open>None\<close> where one is misplaced.
\<close>

fun drop_underscores :: "nat \<Rightarrow> ustr \<Rightarrow> ustr option" where
  "drop_underscores prev [] = (if prev = 95 then None else Some [])"
| "drop_underscores prev (c # cs) =
     (if c = 95 then
        (if is_digit prev then drop_underscores c cs else None)
      else if prev = 95 \<and> \<not> is_digit c then None
      else map_option ((#) c) (drop_underscores c cs))"

text \<open>
  The words \<^verbatim>\<open>inf\<close>, \<^verbatim>\<open>infinity\<close> and \<^verbatim>\<open>nan\<close> are compared after the letters A to Z
  have been mapped to a to z (\<^verbatim>\<open>Py_TOLOWER\<close>).
\<close>

definition ascii_lower_cp :: "nat \<Rightarrow> nat" where
  "ascii_lower_cp c = (if 65 \<le> c \<and> c \<le> 90 then c + 32 else c)"

definition ascii_lower :: "ustr \<Rightarrow> ustr" where
  "ascii_lower s = map ascii_lower_cp s"

definition ascii_space :: "nat \<Rightarrow> bool" where
  "ascii_space c = ((9 \<le> c \<and> c \<le> 13) \<or> c = 32)"

definition ascii_strip :: "ustr \<Rightarrow> ustr" where
  "ascii_strip s = rev (dropWhile ascii_space (rev (dropWhile ascii_space s)))"

fun digits_value :: "int \<Rightarrow> ustr \<Rightarrow> int" where
  "digits_value acc [] = acc"
| "digits_value acc (c # cs) = digits_value (10 * acc + int (c - 48)) cs"

definition pow10 :: "int \<Rightarrow> real" where
  "pow10 k = (if 0 \<le> k then 10 ^ nat k else 1 / 10 ^ nat (- k))"

text \<open>The exponent part: empty, or \<^verbatim>\<open>e\<close>/\<^verbatim>\<open>E\<close>, an optional sign and digits to the end.\<close>

definition parse_exponent :: "ustr \<Rightarrow> int option" where
  "parse_exponent s =
     (case s of
        [] \<Rightarrow> Some 0
      | c # r \<Rightarrow>
          if c = 101 \<or> c = 69 then
            (let neg = (case r of [] \<Rightarrow> False | d # _ \<Rightarrow> d = 45);
                 ds = (case r of [] \<Rightarrow> [] | d # r' \<Rightarrow> if d = 45 \<or> d = 43 then r' else r)
             in if ds \<noteq> [] \<and> list_all is_digit ds
                then Some (if neg then - digits_value 0 ds else digits_value 0 ds)
                else None)
          else None)"

text \<open>The unsigned decimal number \<open>s\<close>, as its exact value.\<close>

definition parse_decimal :: "ustr \<Rightarrow> real option" where
  "parse_decimal s =
     (let ip = takeWhile is_digit s;
          r1 = dropWhile is_digit s;
          has_point = (case r1 of [] \<Rightarrow> False | c # _ \<Rightarrow> c = 46);
          fp = (if has_point then takeWhile is_digit (tl r1) else []);
          r2 = (if has_point then dropWhile is_digit (tl r1) else r1)
      in if ip = [] \<and> fp = [] then None
         else (case parse_exponent r2 of
                 None \<Rightarrow> None
               | Some e \<Rightarrow>
                   Some (of_int (digits_value 0 (ip @ fp)) * pow10 (e - int (length fp)))))"

definition parse_float :: "ustr \<Rightarrow> pyfloat option" where
  "parse_float s =
     (let neg = (case s of [] \<Rightarrow> False | c # _ \<Rightarrow> c = 45);
          body = (case s of [] \<Rightarrow> [] | c # r \<Rightarrow> if c = 45 \<or> c = 43 then r else s);
          word = ascii_lower body
      in if word = u ''inf'' \<or> word = u ''infinity'' then Some (Infinity neg)
         else if word = u ''nan'' then Some NaN
         else map_option (round_binary64 neg) (parse_decimal body))"

definition float_of_str :: "ustr \<Rightarrow> pyerror + pyfloat" where
  "float_of_str s =
     (case drop_underscores 0 (to_ascii s) of
        None \<Rightarrow> Inl ValueError
      | Some t \<Rightarrow>
          (case parse_float (ascii_strip t) of
             None \<Rightarrow> Inl ValueError
           | Some x \<Rightarrow> Inr x))"

subsection \<open>Values, raw records and errors\<close>

text \<open>
  A raw record is a \<^verbatim>\<open>dict\<close> from column names to raw values. A raw value is a
  \<^verbatim>\<open>str\<close> or \<^verbatim>\<open>None\<close> (what \<^verbatim>\<open>csv.DictReader\<close> puts under a column name:
  \<^verbatim>\<open>None\<close> is the value of a column that a short line does not reach), so a raw value
  is a \<open>ustr option\<close>, and a key that is not in the \<^verbatim>\<open>dict\<close> is outside the domain of
  the map. A raised exception is the \<open>Inl\<close> of a sum.
\<close>

type_synonym rawval = "ustr option"

type_synonym rawrecord = "ustr \<rightharpoonup> rawval"

datatype pyval = PyNone | PyBool bool | PyInt int | PyFloat pyfloat | PyStr ustr

definition and_then :: "pyerror + 'a \<Rightarrow> ('a \<Rightarrow> pyerror + 'b) \<Rightarrow> pyerror + 'b" where
  "and_then r f = (case r of Inl e \<Rightarrow> Inl e | Inr v \<Rightarrow> f v)"

text \<open>\<^verbatim>\<open>str(x)\<close> and \<^verbatim>\<open>float(x)\<close> on a raw value.\<close>

definition str_of :: "rawval \<Rightarrow> ustr" where
  "str_of x = (case x of None \<Rightarrow> u ''None'' | Some s \<Rightarrow> s)"

definition float_of :: "rawval \<Rightarrow> pyerror + pyfloat" where
  "float_of x = (case x of None \<Rightarrow> Inl TypeError | Some s \<Rightarrow> float_of_str s)"

text \<open>\<^verbatim>\<open>name in row\<close> and \<^verbatim>\<open>row[name]\<close>; the latter raises on a missing key.\<close>

definition contains :: "rawrecord \<Rightarrow> ustr \<Rightarrow> bool" where
  "contains row name = (row name \<noteq> None)"

definition subscript :: "rawrecord \<Rightarrow> ustr \<Rightarrow> pyerror + rawval" where
  "subscript row name = (case row name of None \<Rightarrow> Inl KeyError | Some v \<Rightarrow> Inr v)"

subsection \<open>The helpers\<close>

definition OUTPUT_FIELDS :: "ustr list" where
  "OUTPUT_FIELDS =
     [u ''track_name_clean'', u ''artists_clean'', u ''Album'', u ''Genre'',
      u ''duration_minutes'', u ''Popularity'', u ''popularity_tier'', u ''Danceability'',
      u ''danceability_label'', u ''Energy'', u ''energy_label'', u ''explicit_label'']"

text \<open>\<^verbatim>\<open>_safe_float\<close>: any exception of \<^verbatim>\<open>float(x)\<close> gives \<^verbatim>\<open>None\<close>.\<close>

definition safe_float :: "rawval \<Rightarrow> pyfloat option" where
  "safe_float x = (case float_of x of Inr v \<Rightarrow> Some v | Inl e \<Rightarrow> None)"

text \<open>
  The body of the first \<^verbatim>\<open>try\<close> of \<^verbatim>\<open>_parse_duration\<close>, on the stripped parts:
  \<open>Inr (Some v)\<close> is \<^verbatim>\<open>return v\<close>, \<open>Inr None\<close> is the end of the body without a
  \<^verbatim>\<open>return\<close> (neither two nor three parts), \<open>Inl e\<close> is an exception.
\<close>

fun clock_body :: "ustr list \<Rightarrow> pyerror + pyfloat option" where
  "clock_body [h, m, sec] =
     and_then (float_of_str h) (\<lambda>fh.
     and_then (float_of_str m) (\<lambda>fm.
     and_then (float_of_str sec) (\<lambda>fs.
     and_then (float_truediv fs (float_lit 60)) (\<lambda>q.
       Inr (Some (float_add (float_add (float_mul fh (float_lit 60)) fm) q))))))"
| "clock_body [m, sec] =
     and_then (float_of_str m) (\<lambda>fm.
     and_then (float_of_str sec) (\<lambda>fs.
     and_then (float_truediv fs (float_lit 60)) (\<lambda>q.
       Inr (Some (float_add fm q)))))"
| "clock_body parts = Inr None"

text \<open>
  The three attempts of \<^verbatim>\<open>_parse_duration\<close> on the stripped, non-empty string \<open>s\<close>;
  \<open>Some v\<close> is \<^verbatim>\<open>return v\<close>, \<open>None\<close> lets the function go on (\<^verbatim>\<open>except Exception: pass\<close>).
\<close>

definition clock_attempt :: "ustr \<Rightarrow> pyfloat option" where
  "clock_attempt s =
     (if 58 \<in> set s then
        (case clock_body (map strip (split 58 s)) of Inr r \<Rightarrow> r | Inl e \<Rightarrow> None)
      else None)"

definition plain_attempt :: "ustr \<Rightarrow> pyfloat option" where
  "plain_attempt s = (case float_of_str s of Inr v \<Rightarrow> Some v | Inl e \<Rightarrow> None)"

definition millis_attempt :: "ustr \<Rightarrow> pyfloat option" where
  "millis_attempt s =
     (case and_then (float_of_str s) (\<lambda>ms.
               if float_gt_int ms 1000 then
                 and_then (float_truediv ms (float_lit 1000)) (\<lambda>a.
                 and_then (float_truediv a (float_lit 60)) (\<lambda>b. Inr (Some b)))
               else Inr None)
      of Inr r \<Rightarrow> r | Inl e \<Rightarrow> None)"

definition parse_duration :: "rawval \<Rightarrow> pyfloat option" where
  "parse_duration val =
     (if val = None then None
      else
        (let s = strip (str_of val)
         in if s = [] then None
            else (case clock_attempt s of
                    Some v \<Rightarrow> Some v
                  | None \<Rightarrow>
                      (case plain_attempt s of
                         Some v \<Rightarrow> Some v
                       | None \<Rightarrow>
                           (case millis_attempt s of
                              Some v \<Rightarrow> Some v
                            | None \<Rightarrow> None)))))"

definition popularity_tier :: "pyfloat option \<Rightarrow> ustr" where
  "popularity_tier p =
     (case p of
        None \<Rightarrow> u ''Unknown''
      | Some x \<Rightarrow>
          if float_ge_int x 70 then u ''High''
          else if float_ge_int x 40 then u ''Medium''
          else u ''Low'')"

definition danceability_label :: "pyfloat option \<Rightarrow> ustr" where
  "danceability_label d =
     (case d of
        None \<Rightarrow> u ''Unknown''
      | Some x \<Rightarrow>
          if float_ge_int x 75 then u ''Very Danceable''
          else if float_ge_int x 50 then u ''Danceable''
          else u ''Low'')"

definition energy_label :: "pyfloat option \<Rightarrow> ustr" where
  "energy_label e =
     (case e of
        None \<Rightarrow> u ''Unknown''
      | Some x \<Rightarrow>
          if float_ge_int x 70 then u ''High''
          else if float_ge_int x 40 then u ''Medium''
          else u ''Low'')"

text \<open>
  \<^verbatim>\<open>_explicit_label\<close> takes any value: \<^verbatim>\<open>isinstance(val, (int, float))\<close> holds of a
  \<^verbatim>\<open>bool\<close>, an \<^verbatim>\<open>int\<close> and a \<^verbatim>\<open>float\<close>; what is left after \<^verbatim>\<open>None\<close> and the numbers
  is a \<^verbatim>\<open>str\<close>, which \<^verbatim>\<open>str(val)\<close> returns as it is.
\<close>

fun explicit_label :: "pyval \<Rightarrow> ustr" where
  "explicit_label PyNone = u ''Clean''"
| "explicit_label (PyBool b) = (if b then u ''Explicit'' else u ''Clean'')"
| "explicit_label (PyInt i) = (if i \<noteq> 0 then u ''Explicit'' else u ''Clean'')"
| "explicit_label (PyFloat x) = (if float_ne_int x 0 then u ''Explicit'' else u ''Clean'')"
| "explicit_label (PyStr v) =
     (let s = lower (strip v)
      in if s \<in> set [u ''true'', u ''t'', u ''yes'', u ''y'', u ''1'', u ''explicit'']
         then u ''Explicit''
         else if s \<in> set [u ''false'', u ''f'', u ''no'', u ''n'', u ''0'', u ''clean'']
         then u ''Clean''
         else u ''Clean'')"

text \<open>
  \<^verbatim>\<open>_pick\<close>. \<open>probe row name\<close> is the condition
  \<^verbatim>\<open>name in row and row[name] not in (None, "")\<close>, the subscript being evaluated only
  when the key is there. The names are \<^verbatim>\<open>str\<close>, so \<^verbatim>\<open>str(name)\<close> is \<open>name\<close>.
\<close>

definition probe :: "rawrecord \<Rightarrow> ustr \<Rightarrow> pyerror + bool" where
  "probe row name =
     (if contains row name
      then and_then (subscript row name) (\<lambda>v. Inr (v \<noteq> None \<and> v \<noteq> Some []))
      else Inr False)"

fun pick :: "rawrecord \<Rightarrow> ustr list \<Rightarrow> rawval \<Rightarrow> pyerror + rawval" where
  "pick row [] dflt = Inr dflt"
| "pick row (name # names) dflt =
     and_then (probe row name) (\<lambda>found.
       if found then subscript row name
       else
         (let bom_name = BOM # name
          in and_then (probe row bom_name) (\<lambda>found_bom.
               if found_bom then subscript row bom_name
               else pick row names dflt)))"

subsection \<open>The row function\<close>

definition of_raw :: "rawval \<Rightarrow> pyval" where
  "of_raw x = (case x of None \<Rightarrow> PyNone | Some s \<Rightarrow> PyStr s)"

definition of_float :: "pyfloat option \<Rightarrow> pyval" where
  "of_float x = (case x of None \<Rightarrow> PyNone | Some v \<Rightarrow> PyFloat v)"

definition transform_row :: "rawrecord \<Rightarrow> pyerror + (ustr \<rightharpoonup> pyval)" where
  "transform_row row =
     and_then (pick row [u ''song'', u ''track_name'', u ''name''] (Some [])) (\<lambda>track_name.
     and_then (pick row [u ''Artist(s)'', u ''artists'', u ''artist_name'', u ''artist'']
                 (Some [])) (\<lambda>artist.
     and_then (pick row [u ''Album'', u ''album'', u ''album_name''] (Some [])) (\<lambda>album.
     and_then (pick row [u ''Genre'', u ''genre'', u ''track_genre''] (Some [])) (\<lambda>genre.
     and_then (pick row [u ''Length'', u ''duration'', u ''duration_ms''] (Some []))
       (\<lambda>length_val.
     let duration_minutes = parse_duration length_val in
     and_then (pick row [u ''Popularity'', u ''popularity''] (Some [])) (\<lambda>popularity_raw.
     let popularity = safe_float popularity_raw;
         pop_tier = popularity_tier popularity in
     and_then (pick row [u ''Danceability'', u ''danceability''] (Some [])) (\<lambda>dance_raw.
     let dance = safe_float dance_raw;
         dance_label = danceability_label dance in
     and_then (pick row [u ''Energy'', u ''energy''] (Some [])) (\<lambda>energy_raw.
     let energy = safe_float energy_raw;
         energy_lbl = energy_label energy in
     and_then (pick row [u ''Explicit'', u ''explicit''] (Some [])) (\<lambda>explicit_raw.
     let explicit_lbl = explicit_label (of_raw explicit_raw) in
     Inr (Map.empty
       (u ''track_name_clean'' \<mapsto> PyStr (strip (str_of track_name)),
        u ''artists_clean'' \<mapsto> PyStr (strip (str_of artist)),
        u ''Album'' \<mapsto> PyStr (strip (str_of album)),
        u ''Genre'' \<mapsto> PyStr (lower (strip (str_of genre))),
        u ''duration_minutes'' \<mapsto> of_float duration_minutes,
        u ''Popularity'' \<mapsto> of_float popularity,
        u ''popularity_tier'' \<mapsto> PyStr pop_tier,
        u ''Danceability'' \<mapsto> of_float dance,
        u ''danceability_label'' \<mapsto> PyStr dance_label,
        u ''Energy'' \<mapsto> of_float energy,
        u ''energy_label'' \<mapsto> PyStr energy_lbl,
        u ''explicit_label'' \<mapsto> PyStr explicit_lbl)))))))))))"

subsection \<open>Notions used to state the properties\<close>

text \<open>
  \<open>nonblank row k\<close>: the key \<open>k\<close> is in the record with a value that is neither
  \<^verbatim>\<open>None\<close> nor the empty string. \<open>value_at row k\<close> is the value under a key that is
  there.
\<close>

definition nonblank :: "rawrecord \<Rightarrow> ustr \<Rightarrow> bool" where
  "nonblank row k = (case row k of Some (Some (c # cs)) \<Rightarrow> True | _ \<Rightarrow> False)"

definition value_at :: "rawrecord \<Rightarrow> ustr \<Rightarrow> rawval" where
  "value_at row k = (case row k of Some v \<Rightarrow> v | None \<Rightarrow> None)"

text \<open>A candidate matches when its plain name or its variant with the mark is non-blank.\<close>

definition matches :: "rawrecord \<Rightarrow> ustr \<Rightarrow> bool" where
  "matches row name = (nonblank row name \<or> nonblank row (BOM # name))"

text \<open>
  A string without whitespace at either end; a code point that \<^verbatim>\<open>str.lower()\<close> leaves
  as it is wherever it stands; and a lowercased string: \<^verbatim>\<open>str.lower()\<close> returns it
  unchanged, and each of its code points is one that \<^verbatim>\<open>str.lower()\<close> leaves as it is.
\<close>

definition trimmed :: "ustr \<Rightarrow> bool" where
  "trimmed s = (case s of [] \<Rightarrow> True | c # cs \<Rightarrow> \<not> isspace c \<and> \<not> isspace (last s))"

definition lower_fixed :: "nat \<Rightarrow> bool" where
  "lower_fixed c = (c \<noteq> 931 \<and> lower_full c = [c])"

definition lowercased :: "ustr \<Rightarrow> bool" where
  "lowercased s = (lower s = s \<and> list_all lower_fixed s)"

text \<open>
  The checks of the table of lowercase forms. The lowercase forms of a run are above the
  space and are none of the other whitespace code points, nor 304, nor 931.
\<close>

definition run_target_ok :: "nat \<times> nat \<times> nat \<times> nat \<Rightarrow> bool" where
  "run_target_ok r =
     (case r of (lo, hi, step, tlo) \<Rightarrow>
        lo \<le> hi \<and> 32 < tlo
        \<and> (tlo + (hi - lo) < 133 \<or> 133 < tlo)
        \<and> (tlo + (hi - lo) < 160 \<or> 160 < tlo)
        \<and> (tlo + (hi - lo) < 304 \<or> 304 < tlo)
        \<and> (tlo + (hi - lo) < 931 \<or> 931 < tlo)
        \<and> (tlo + (hi - lo) < 5760 \<or> 5760 < tlo)
        \<and> (tlo + (hi - lo) < 8192 \<or> 8202 < tlo)
        \<and> (tlo + (hi - lo) < 8232 \<or> 8233 < tlo)
        \<and> (tlo + (hi - lo) < 8239 \<or> 8239 < tlo)
        \<and> (tlo + (hi - lo) < 8287 \<or> 8287 < tlo)
        \<and> (tlo + (hi - lo) < 12288 \<or> 12288 < tlo))"

text \<open>
  A progression \<open>(lo, hi, step)\<close> holds \<open>lo\<close>, \<open>lo + step\<close>, ... up to \<open>hi\<close>: the code points
  of a run are one, their lowercase forms are another. Two progressions are apart when
  one lies below the other, or when they are at different parities. \<open>walk\<close> goes
  through two ascending lists of progressions side by side and checks that each
  progression of the first is apart from each of the second.
\<close>

definition run_src :: "nat \<times> nat \<times> nat \<times> nat \<Rightarrow> nat \<times> nat \<times> nat" where
  "run_src r = (case r of (lo, hi, step, tlo) \<Rightarrow> (lo, hi, step))"

definition run_tgt :: "nat \<times> nat \<times> nat \<times> nat \<Rightarrow> nat \<times> nat \<times> nat" where
  "run_tgt r = (case r of (lo, hi, step, tlo) \<Rightarrow> (tlo, tlo + (hi - lo), step))"

definition in_prog :: "nat \<Rightarrow> nat \<times> nat \<times> nat \<Rightarrow> bool" where
  "in_prog c p = (case p of (lo, hi, step) \<Rightarrow> lo \<le> c \<and> c \<le> hi \<and> (c - lo) mod step = 0)"

definition prog_apart :: "nat \<times> nat \<times> nat \<Rightarrow> nat \<times> nat \<times> nat \<Rightarrow> bool" where
  "prog_apart p q =
     (case p of (lo1, hi1, step1) \<Rightarrow>
        (case q of (lo2, hi2, step2) \<Rightarrow>
           hi1 < lo2 \<or> hi2 < lo1
           \<or> ((step1 = 2 \<or> lo1 = hi1) \<and> step2 = 2 \<and> odd (lo1 + lo2))))"

fun ascending :: "(nat \<times> nat \<times> nat) list \<Rightarrow> bool" where
  "ascending [] = True"
| "ascending [(lo, hi, step)] = (lo \<le> hi)"
| "ascending ((lo, hi, step) # (lo', hi', step') # ps) =
     (lo \<le> hi \<and> hi < lo' \<and> ascending ((lo', hi', step') # ps))"

fun walk :: "(nat \<times> nat \<times> nat) list \<Rightarrow> (nat \<times> nat \<times> nat) list \<Rightarrow> bool" where
  "walk [] qs = True"
| "walk (p # ps) [] = True"
| "walk ((lo1, hi1, step1) # ps) ((lo2, hi2, step2) # qs) =
     (if hi1 < lo2 then walk ps ((lo2, hi2, step2) # qs)
      else if hi2 < lo1 then walk ((lo1, hi1, step1) # ps) qs
      else prog_apart (lo1, hi1, step1) (lo2, hi2, step2)
        \<and> (if hi1 \<le> hi2 then walk ps ((lo2, hi2, step2) # qs)
           else walk ((lo1, hi1, step1) # ps) qs))"

text \<open>
  The value that the lookup settles on: that of the first candidate that matches, under
  its plain name when that is non-blank and under the variant with the mark otherwise;
  the default when no candidate matches.
\<close>

definition resolved :: "rawrecord \<Rightarrow> ustr list \<Rightarrow> rawval \<Rightarrow> rawval" where
  "resolved row names dflt =
     (case find (matches row) names of
        None \<Rightarrow> dflt
      | Some n \<Rightarrow> if nonblank row n then value_at row n else value_at row (BOM # n))"

text \<open>Three records for the examples of the lookup.\<close>

definition both_row :: rawrecord where
  "both_row = [u ''song'' \<mapsto> Some (u ''A''), u ''track_name'' \<mapsto> Some (u ''B'')]"

definition marked_row :: rawrecord where
  "marked_row = [BOM # u ''song'' \<mapsto> Some (u ''A''), u ''track_name'' \<mapsto> Some (u ''B'')]"

definition plain_and_marked_row :: rawrecord where
  "plain_and_marked_row =
     [u ''song'' \<mapsto> Some (u ''Z''), BOM # u ''song'' \<mapsto> Some (u ''X''),
      u ''track_name'' \<mapsto> Some (u ''Y'')]"

definition only_marked_row :: rawrecord where
  "only_marked_row = [BOM # u ''track_name'' \<mapsto> Some (u ''B'')]"

text \<open>A record whose genre has spaces around it and a capital beyond ASCII.\<close>

definition accented_row :: rawrecord where
  "accented_row = [u ''Genre'' \<mapsto> Some [32, 201, 76, 69, 67, 84, 82, 79, 32]]"

text \<open>A record with a zero duration, a zero popularity and a danceability that is no number.\<close>

definition zero_row :: rawrecord where
  "zero_row =
     [u ''Length'' \<mapsto> Some (u ''0:00''), u ''Popularity'' \<mapsto> Some (u ''0''),
      u ''Danceability'' \<mapsto> Some (u ''abc'')]"

text \<open>
  \<^verbatim>\<open>_parse_duration\<close> with its third attempt (the milliseconds one) removed, for the
  comparison with the function as it is.
\<close>

definition parse_duration_without_millis :: "rawval \<Rightarrow> pyfloat option" where
  "parse_duration_without_millis val =
     (if val = None then None
      else
        (let s = strip (str_of val)
         in if s = [] then None
            else (case clock_attempt s of
                    Some v \<Rightarrow> Some v
                  | None \<Rightarrow>
                      (case plain_attempt s of
                         Some v \<Rightarrow> Some v
                       | None \<Rightarrow> None))))"

section \<open>Properties\<close>

subsection \<open>Evaluation of the float model\<close>

lemma bit_length_numeral:
  "bit_length 0 = 0"
  "bit_length 1 = 1"
  "bit_length (numeral (Num.Bit0 k)) = Suc (bit_length (numeral k))"
  "bit_length (numeral (Num.Bit1 k)) = Suc (bit_length (numeral k))"
  by (subst bit_length.simps, simp)+

lemmas float_eval =
  round_binary64_def floor_log2_def pow2_def round_half_even_def bit_length_numeral Let_def
  float_lit_def of_exact_def signed_def

lemmas str_eval =
  u_def strip_def isspace_def

lemmas float_of_str_eval =
  float_of_str_def to_ascii_def to_ascii_cp_def ascii_lower_def ascii_lower_cp_def
  ascii_strip_def ascii_space_def is_digit_def
  parse_float_def parse_decimal_def parse_exponent_def pow10_def

lemma float_lit_60: "float_lit 60 = Finite False 60"
  by (simp add: float_eval)

lemma float_lit_thresholds:
  "float_lit 70 = Finite False 70" "float_lit 40 = Finite False 40"
  "float_lit 75 = Finite False 75" "float_lit 50 = Finite False 50"
  by (simp_all add: float_eval)

lemma float_lit_below:
  "float_lit (39999 / 1000) = Finite False (5629358796724765 / 140737488355328)"
  "float_lit (49999 / 1000) = Finite False (7036733680278045 / 140737488355328)"
  "float_lit (74999 / 1000) = Finite False (2638792722290311 / 35184372088832)"
  by (simp_all add: float_eval)

subsection \<open>The duration parser\<close>

lemma millis_after_plain: "plain_attempt s = None \<Longrightarrow> millis_attempt s = None"
  by (cases "float_of_str s") (simp_all add: plain_attempt_def millis_attempt_def and_then_def)

text \<open>
  C9. The milliseconds attempt cannot succeed: it starts with the float conversion that
  the attempt before it has just failed. So \<^verbatim>\<open>_parse_duration\<close> is equal, on every
  input, to the parser without the third attempt.
\<close>

theorem parse_duration_millis_unreachable:
  "parse_duration val = parse_duration_without_millis val"
proof (cases "plain_attempt (strip (str_of val))")
  case None
  then have "millis_attempt (strip (str_of val)) = None"
    by (rule millis_after_plain)
  with None show ?thesis
    by (simp add: parse_duration_def parse_duration_without_millis_def Let_def
        split: option.splits)
next
  case (Some v)
  then show ?thesis
    by (simp add: parse_duration_def parse_duration_without_millis_def Let_def
        split: option.splits)
qed

lemma float_of_str_examples:
  "float_of_str (u ''3'') = Inr (Finite False 3)"
  "float_of_str (u ''15'') = Inr (Finite False 15)"
  "float_of_str (u ''00'') = Inr (Finite False 0)"
  "float_of_str (u ''03'') = Inr (Finite False 3)"
  "float_of_str (u ''30'') = Inr (Finite False 30)"
  "float_of_str (u ''4.5'') = Inr (Finite False (9 / 2))"
  "float_of_str (u ''250000'') = Inr (Finite False 250000)"
  "float_of_str (u ''abcd'') = Inl ValueError"
  by (simp_all add: float_eval u_def float_of_str_eval)

lemma split_examples:
  "split 58 (u ''3:15'') = [u ''3'', u ''15'']"
  "split 58 (u ''00:03:30'') = [u ''00'', u ''03'', u ''30'']"
  by (simp_all add: u_def)

lemma strip_examples:
  "strip (u ''3:15'') = u ''3:15''" "strip (u ''00:03:30'') = u ''00:03:30''"
  "strip (u ''3'') = u ''3''" "strip (u ''15'') = u ''15''"
  "strip (u ''00'') = u ''00''" "strip (u ''03'') = u ''03''" "strip (u ''30'') = u ''30''"
  "strip (u ''4.5'') = u ''4.5''" "strip (u ''250000'') = u ''250000''"
  "strip (u ''abcd'') = u ''abcd''" "strip (u ''  '') = []"
  by (simp_all add: str_eval)

lemma colon_examples:
  "58 \<in> set (u ''3:15'')" "58 \<in> set (u ''00:03:30'')"
  "58 \<notin> set (u ''4.5'')" "58 \<notin> set (u ''250000'')" "58 \<notin> set (u ''abcd'')"
  by (simp_all add: u_def)

lemma clock_attempt_examples:
  "clock_attempt (u ''3:15'') = Some (Finite False (13 / 4))"
  "clock_attempt (u ''00:03:30'') = Some (Finite False (7 / 2))"
  "clock_attempt (u ''4.5'') = None"
  "clock_attempt (u ''250000'') = None"
  "clock_attempt (u ''abcd'') = None"
  by (simp_all add: clock_attempt_def colon_examples split_examples strip_examples
      float_of_str_examples and_then_def float_lit_60 float_eval)

lemma plain_attempt_examples:
  "plain_attempt (u ''4.5'') = Some (Finite False (9 / 2))"
  "plain_attempt (u ''250000'') = Some (Finite False 250000)"
  "plain_attempt (u ''abcd'') = None"
  by (simp_all add: plain_attempt_def float_of_str_examples)

lemma parse_duration_unfold:
  "parse_duration (Some v) =
     (if strip v = [] then None
      else (case clock_attempt (strip v) of
              Some x \<Rightarrow> Some x
            | None \<Rightarrow>
                (case plain_attempt (strip v) of
                   Some x \<Rightarrow> Some x
                 | None \<Rightarrow> millis_attempt (strip v))))"
  by (simp add: parse_duration_def str_of_def Let_def split: option.splits)

text \<open>
  C2. The duration parser tries the clock form, then the plain number, then the
  milliseconds reading, and the first form that succeeds gives the result. On the
  examples: \<^verbatim>\<open>"3:15"\<close> gives 3.25, \<^verbatim>\<open>"00:03:30"\<close> gives 3.5, \<^verbatim>\<open>"4.5"\<close> gives 4.5, a
  string of whitespace only (any string \<open>filter isspace w\<close> is one) and \<^verbatim>\<open>None\<close> give
  \<^verbatim>\<open>None\<close>, \<^verbatim>\<open>"abcd"\<close> gives \<^verbatim>\<open>None\<close>, and \<^verbatim>\<open>"250000"\<close> gives 250000.0 minutes, by
  the plain number form.
\<close>

theorem parse_duration_examples:
  "parse_duration (Some v) =
     (if strip v = [] then None
      else (case clock_attempt (strip v) of
              Some x \<Rightarrow> Some x
            | None \<Rightarrow>
                (case plain_attempt (strip v) of
                   Some x \<Rightarrow> Some x
                 | None \<Rightarrow> millis_attempt (strip v))))
   \<and> parse_duration (Some (u ''3:15'')) = Some (Finite False (13 / 4))
   \<and> parse_duration (Some (u ''00:03:30'')) = Some (Finite False (7 / 2))
   \<and> parse_duration (Some (u ''4.5'')) = Some (Finite False (9 / 2))
   \<and> parse_duration (Some (u ''  '')) = None
   \<and> parse_duration (Some (filter isspace w)) = None
   \<and> parse_duration None = None
   \<and> parse_duration (Some (u ''abcd'')) = None
   \<and> parse_duration (Some (u ''250000'')) = Some (Finite False 250000)
   \<and> clock_attempt (u ''250000'') = None
   \<and> plain_attempt (u ''250000'') = Some (Finite False 250000)"
proof -
  have ne: "u ''3:15'' \<noteq> []" "u ''00:03:30'' \<noteq> []" "u ''4.5'' \<noteq> []"
    "u ''abcd'' \<noteq> []" "u ''250000'' \<noteq> []"
    by (simp_all add: u_def)
  have "parse_duration (Some (u ''3:15'')) = Some (Finite False (13 / 4))"
    by (simp add: parse_duration_unfold strip_examples clock_attempt_examples ne)
  moreover have "parse_duration (Some (u ''00:03:30'')) = Some (Finite False (7 / 2))"
    by (simp add: parse_duration_unfold strip_examples clock_attempt_examples ne)
  moreover have "parse_duration (Some (u ''4.5'')) = Some (Finite False (9 / 2))"
    by (simp add: parse_duration_unfold strip_examples clock_attempt_examples
        plain_attempt_examples ne)
  moreover have "parse_duration (Some (u ''  '')) = None"
    by (simp add: parse_duration_unfold strip_examples)
  moreover have "parse_duration (Some (filter isspace w)) = None"
  proof -
    have blank: "dropWhile isspace (filter isspace w) = []"
      by (induction w) simp_all
    have "strip (filter isspace w) = []"
      unfolding strip_def blank by simp
    then show ?thesis
      by (simp add: parse_duration_unfold)
  qed
  moreover have "parse_duration None = None"
    by (simp add: parse_duration_def)
  moreover have "parse_duration (Some (u ''abcd'')) = None"
    by (simp add: parse_duration_unfold strip_examples clock_attempt_examples
        plain_attempt_examples millis_after_plain ne)
  moreover have "parse_duration (Some (u ''250000'')) = Some (Finite False 250000)"
    by (simp add: parse_duration_unfold strip_examples clock_attempt_examples
        plain_attempt_examples ne)
  ultimately show ?thesis
    by (simp add: parse_duration_unfold clock_attempt_examples plain_attempt_examples)
qed

subsection \<open>Lowercasing\<close>

lemma lower_runs_head: "lower_runs = (65, 90, 1, 97) # tl lower_runs"
  by (simp add: lower_runs_def lower_chains_def)

lemma lower_runs_rest: "list_all (\<lambda>r. 128 \<le> fst r) (tl lower_runs)"
  by (simp add: lower_runs_def lower_chains_def)

lemma lower_full_ascii:
  assumes "c < 128"
  shows "lower_full c = [ascii_lower_cp c]"
proof -
  have "\<not> in_run c r" if "r \<in> set (tl lower_runs)" for r
  proof -
    from that lower_runs_rest have "128 \<le> fst r"
      by (simp add: list_all_iff)
    with assms show ?thesis
      by (cases r) (simp add: in_run_def)
  qed
  then have rest: "find (in_run c) (tl lower_runs) = None"
    by (simp add: find_None_iff)
  have "find (in_run c) lower_runs =
      (if in_run c (65, 90, 1, 97) then Some (65, 90, 1, 97) else None)"
    by (subst lower_runs_head) (simp add: rest)
  with assms show ?thesis
    by (simp add: lower_full_def in_run_def ascii_lower_cp_def)
qed

lemma lower_from_ascii:
  "list_all (\<lambda>c. c < 128) s \<Longrightarrow> lower_from before s = ascii_lower s"
  by (induction s arbitrary: before)
    (simp_all add: lower_at_def lower_full_ascii ascii_lower_def)

lemma lower_ascii: "list_all (\<lambda>c. c < 128) s \<Longrightarrow> lower s = ascii_lower s"
  by (simp add: lower_def lower_from_ascii)

lemma lower_ascii_examples:
  "lower (strip (u ''Yes'')) = u ''yes''" "lower (strip (u '' TRUE '')) = u ''true''"
  "lower (strip (u ''No'')) = u ''no''" "lower (strip (u ''maybe'')) = u ''maybe''"
proof -
  have s: "strip (u ''Yes'') = u ''Yes''" "strip (u '' TRUE '') = u ''TRUE''"
    "strip (u ''No'') = u ''No''" "strip (u ''maybe'') = u ''maybe''"
    by (simp_all add: str_eval)
  have a: "list_all (\<lambda>c. c < 128) (u ''Yes'')" "list_all (\<lambda>c. c < 128) (u ''TRUE'')"
    "list_all (\<lambda>c. c < 128) (u ''No'')" "list_all (\<lambda>c. c < 128) (u ''maybe'')"
    by (simp_all add: u_def)
  show "lower (strip (u ''Yes'')) = u ''yes''" "lower (strip (u '' TRUE '')) = u ''true''"
    "lower (strip (u ''No'')) = u ''no''" "lower (strip (u ''maybe'')) = u ''maybe''"
    unfolding s lower_ascii [OF a(1)] lower_ascii [OF a(2)] lower_ascii [OF a(3)]
      lower_ascii [OF a(4)]
    by (simp_all add: ascii_lower_def ascii_lower_cp_def u_def)
qed

text \<open>
  Beyond ASCII: a capital with an accent, the code point with a lowercase form of two
  code points, the Kelvin sign, and the capital sigma at the end of a word, alone, and
  before another letter.
\<close>

lemma lower_examples:
  "lower [201, 76, 69, 67, 84, 82, 79] = [233, 108, 101, 99, 116, 114, 111]"
  "lower [304] = [105, 775]"
  "lower [8490] = [107]"
  "lower [913, 931] = [945, 962]"
  "lower [931] = [963]"
  "lower [931, 913] = [963, 945]"
  by (simp_all add: lower_def lower_at_def lower_full_def in_run_def lower_runs_def
      lower_chains_def final_sigma_def case_ignorable_def cased_def in_range_def
      case_ignorable_runs_def cased_runs_def)

lemma prog_apart_no_common:
  assumes "prog_apart p q" and "in_prog c p"
  shows "\<not> in_prog c q"
proof
  assume q: "in_prog c q"
  obtain lo1 hi1 step1 where p_eq: "p = (lo1, hi1, step1)" by (cases p)
  obtain lo2 hi2 step2 where q_eq: "q = (lo2, hi2, step2)" by (cases q)
  from assms(2) have p1: "lo1 \<le> c" "c \<le> hi1" "(c - lo1) mod step1 = 0"
    by (simp_all add: in_prog_def p_eq)
  from q have q1: "lo2 \<le> c" "c \<le> hi2" "(c - lo2) mod step2 = 0"
    by (simp_all add: in_prog_def q_eq)
  from assms(1) p1(1,2) q1(1,2)
  have par: "(step1 = 2 \<or> lo1 = hi1) \<and> step2 = 2 \<and> odd (lo1 + lo2)"
    by (auto simp: prog_apart_def p_eq q_eq)
  then have "even (c - lo2)"
    using q1(3) by presburger
  moreover have "even (c - lo1)"
  proof (cases "lo1 = hi1")
    case True
    with p1(1,2) have "c = lo1" by simp
    then show ?thesis by simp
  next
    case False
    with par have "step1 = 2" by simp
    with p1(3) show ?thesis by presburger
  qed
  ultimately show False
    using par p1(1) q1(1) by presburger
qed

lemma ascending_head: "ascending ((lo, hi, st) # ps) \<Longrightarrow> lo \<le> hi"
  by (cases ps) auto

lemma ascending_tail: "ascending (p # ps) \<Longrightarrow> ascending ps"
  by (cases p; cases ps) auto

lemma ascending_later:
  "ascending ((lo, hi, st) # ps) \<Longrightarrow> (lo', hi', st') \<in> set ps \<Longrightarrow> hi < lo'"
proof (induction ps arbitrary: lo hi st)
  case Nil
  then show ?case by simp
next
  case (Cons a ps)
  obtain lo0 hi0 st0 where a: "a = (lo0, hi0, st0)" by (cases a)
  from Cons.prems(1) have h: "hi < lo0" "ascending ((lo0, hi0, st0) # ps)"
    by (simp_all add: a)
  show ?case
  proof (cases "(lo', hi', st') = a")
    case True
    with h a show ?thesis by simp
  next
    case False
    with Cons.prems(2) have "(lo', hi', st') \<in> set ps" by simp
    with Cons.IH h(2) have "hi0 < lo'" by blast
    moreover from h(2) have "lo0 \<le> hi0" by (rule ascending_head)
    ultimately show ?thesis using h(1) by simp
  qed
qed

lemma walk_sound:
  "walk ps qs \<Longrightarrow> ascending ps \<Longrightarrow> ascending qs \<Longrightarrow> p \<in> set ps \<Longrightarrow> q \<in> set qs
     \<Longrightarrow> prog_apart p q"
proof (induction ps qs arbitrary: p q rule: walk.induct)
  case (1 qs)
  then show ?case by simp
next
  case (2 p0 ps)
  then show ?case by simp
next
  case (3 lo1 hi1 step1 ps lo2 hi2 step2 qs)
  let ?p0 = "(lo1, hi1, step1)" and ?q0 = "(lo2, hi2, step2)"
  obtain a b s where p: "p = (a, b, s)" by (cases p)
  obtain a' b' s' where q: "q = (a', b', s')" by (cases q)
  have ps: "ascending ps" and qs: "ascending qs"
    using "3.prems"(2,3) by (auto dest: ascending_tail)
  have hp: "lo1 \<le> hi1" and hq: "lo2 \<le> hi2"
    using "3.prems"(2,3) by (auto dest: ascending_head)
  have later_p: "hi1 < a" if "p \<in> set ps"
    using that "3.prems"(2) ascending_later [of lo1 hi1 step1 ps a b s] by (simp add: p)
  have later_q: "hi2 < a'" if "q \<in> set qs"
    using that "3.prems"(3) ascending_later [of lo2 hi2 step2 qs a' b' s'] by (simp add: q)
  consider (below) "hi1 < lo2" | (above) "\<not> hi1 < lo2" "hi2 < lo1"
    | (left) "\<not> hi1 < lo2" "\<not> hi2 < lo1" "hi1 \<le> hi2"
    | (right) "\<not> hi1 < lo2" "\<not> hi2 < lo1" "\<not> hi1 \<le> hi2"
    by blast
  then show ?case
  proof cases
    case below
    then have w: "walk ps (?q0 # qs)" using "3.prems"(1) by simp
    show ?thesis
    proof (cases "p = ?p0")
      case True
      show ?thesis
      proof (cases "q = ?q0")
        case True
        with \<open>p = ?p0\<close> below show ?thesis by (simp add: prog_apart_def)
      next
        case False
        with "3.prems"(5) have "q \<in> set qs" by simp
        then have "hi2 < a'" by (rule later_q)
        with below hq \<open>p = ?p0\<close> show ?thesis by (simp add: prog_apart_def q)
      qed
    next
      case False
      with "3.prems"(4) have "p \<in> set ps" by simp
      with "3.IH"(1) [OF below w ps "3.prems"(3) _ "3.prems"(5)] show ?thesis by simp
    qed
  next
    case above
    then have w: "walk (?p0 # ps) qs" using "3.prems"(1) by simp
    show ?thesis
    proof (cases "q = ?q0")
      case True
      show ?thesis
      proof (cases "p = ?p0")
        case True
        with \<open>q = ?q0\<close> above show ?thesis by (simp add: prog_apart_def)
      next
        case False
        with "3.prems"(4) have "p \<in> set ps" by simp
        then have "hi1 < a" by (rule later_p)
        with above hp \<open>q = ?q0\<close> show ?thesis by (simp add: prog_apart_def p)
      qed
    next
      case False
      with "3.prems"(5) have "q \<in> set qs" by simp
      with "3.IH"(2) [OF above w "3.prems"(2) qs "3.prems"(4)] show ?thesis by simp
    qed
  next
    case left
    then have apart: "prog_apart ?p0 ?q0" and w: "walk ps (?q0 # qs)"
      using "3.prems"(1) by simp_all
    show ?thesis
    proof (cases "p = ?p0")
      case True
      show ?thesis
      proof (cases "q = ?q0")
        case True
        with \<open>p = ?p0\<close> apart show ?thesis by simp
      next
        case False
        with "3.prems"(5) have "q \<in> set qs" by simp
        then have "hi2 < a'" by (rule later_q)
        with left \<open>p = ?p0\<close> show ?thesis by (simp add: prog_apart_def q)
      qed
    next
      case False
      with "3.prems"(4) have "p \<in> set ps" by simp
      with "3.IH"(3) [OF left w ps "3.prems"(3) _ "3.prems"(5)] show ?thesis by simp
    qed
  next
    case right
    then have apart: "prog_apart ?p0 ?q0" and w: "walk (?p0 # ps) qs"
      using "3.prems"(1) by simp_all
    show ?thesis
    proof (cases "q = ?q0")
      case True
      show ?thesis
      proof (cases "p = ?p0")
        case True
        with \<open>q = ?q0\<close> apart show ?thesis by simp
      next
        case False
        with "3.prems"(4) have "p \<in> set ps" by simp
        then have "hi1 < a" by (rule later_p)
        with right \<open>q = ?q0\<close> show ?thesis by (simp add: prog_apart_def p)
      qed
    next
      case False
      with "3.prems"(5) have "q \<in> set qs" by simp
      with "3.IH"(4) [OF right w "3.prems"(2) qs "3.prems"(4)] show ?thesis by simp
    qed
  qed
qed


lemma lower_chains_ascending:
  "list_all (\<lambda>ch. ascending (map run_src ch) \<and> ascending (map run_tgt ch)) lower_chains"
  by (simp add: lower_chains_def run_src_def run_tgt_def)

lemma lower_chains_walk:
  "list_all (\<lambda>a. list_all (\<lambda>b. walk (map run_tgt a) (map run_src b)) lower_chains)
     lower_chains"
  by (simp add: lower_chains_def run_src_def run_tgt_def prog_apart_def)

lemma lower_runs_targets: "list_all run_target_ok lower_runs"
  by (simp add: lower_runs_def lower_chains_def run_target_ok_def)

lemma lower_runs_apart:
  assumes "r1 \<in> set lower_runs" and "r2 \<in> set lower_runs"
  shows "prog_apart (run_tgt r1) (run_src r2)"
proof -
  from assms obtain a b where a: "a \<in> set lower_chains" "r1 \<in> set a"
    and b: "b \<in> set lower_chains" "r2 \<in> set b"
    by (auto simp: lower_runs_def)
  from a(1) b(1) lower_chains_walk have "walk (map run_tgt a) (map run_src b)"
    by (simp add: list_all_iff)
  moreover from a(1) lower_chains_ascending have "ascending (map run_tgt a)"
    by (simp add: list_all_iff)
  moreover from b(1) lower_chains_ascending have "ascending (map run_src b)"
    by (simp add: list_all_iff)
  moreover have "run_tgt r1 \<in> set (map run_tgt a)" "run_src r2 \<in> set (map run_src b)"
    using a(2) b(2) by simp_all
  ultimately show ?thesis
    by (rule walk_sound)
qed

lemma lower_target:
  assumes "find (in_run c) lower_runs = Some (lo, hi, step, tlo)"
  shows "lower_fixed (tlo + (c - lo))" and "\<not> isspace (tlo + (c - lo))"
proof -
  let ?r = "(lo, hi, step, tlo)" and ?t = "tlo + (c - lo)"
  from assms have r: "?r \<in> set lower_runs" and c: "in_run c ?r"
    by (auto simp: find_Some_iff)
  from c have bounds: "lo \<le> c" "c \<le> hi" "(c - lo) mod step = 0"
    by (simp_all add: in_run_def)
  have tb: "tlo \<le> ?t" "?t \<le> tlo + (hi - lo)" and tm: "(?t - tlo) mod step = 0"
    using bounds by simp_all
  then have t: "in_prog ?t (run_tgt ?r)"
    by (simp add: in_prog_def run_tgt_def)
  have "\<not> in_run ?t r2" if "r2 \<in> set lower_runs" for r2
  proof -
    from r that have "prog_apart (run_tgt ?r) (run_src r2)"
      by (rule lower_runs_apart)
    from this t have "\<not> in_prog ?t (run_src r2)"
      by (rule prog_apart_no_common)
    then show ?thesis
      by (cases r2) (simp add: in_prog_def run_src_def in_run_def)
  qed
  then have none: "find (in_run ?t) lower_runs = None"
    by (simp add: find_None_iff)
  from r lower_runs_targets have "run_target_ok ?r"
    by (simp add: list_all_iff)
  then have ok: "32 < tlo"
    "tlo + (hi - lo) < 133 \<or> 133 < tlo" "tlo + (hi - lo) < 160 \<or> 160 < tlo"
    "tlo + (hi - lo) < 304 \<or> 304 < tlo" "tlo + (hi - lo) < 931 \<or> 931 < tlo"
    "tlo + (hi - lo) < 5760 \<or> 5760 < tlo" "tlo + (hi - lo) < 8192 \<or> 8202 < tlo"
    "tlo + (hi - lo) < 8232 \<or> 8233 < tlo" "tlo + (hi - lo) < 8239 \<or> 8239 < tlo"
    "tlo + (hi - lo) < 8287 \<or> 8287 < tlo" "tlo + (hi - lo) < 12288 \<or> 12288 < tlo"
    unfolding run_target_ok_def prod.case by blast+
  have w1: "32 < ?t" using ok(1) tb(1) by linarith
  have w2: "?t \<noteq> 133" using ok(2) tb by linarith
  have w3: "?t \<noteq> 160" using ok(3) tb by linarith
  have w4: "?t \<noteq> 304" using ok(4) tb by linarith
  have w5: "?t \<noteq> 931" using ok(5) tb by linarith
  have w6: "?t \<noteq> 5760" using ok(6) tb by linarith
  have w7: "?t < 8192 \<or> 8202 < ?t" using ok(7) tb by linarith
  have w8: "?t < 8232 \<or> 8233 < ?t" using ok(8) tb by linarith
  have w9: "?t \<noteq> 8239" using ok(9) tb by linarith
  have w10: "?t \<noteq> 8287" using ok(10) tb by linarith
  have w11: "?t \<noteq> 12288" using ok(11) tb by linarith
  show "lower_fixed ?t"
    using none w4 w5 by (simp add: lower_fixed_def lower_full_def)
  have "\<not> (9 \<le> ?t \<and> ?t \<le> 13)" "\<not> (28 \<le> ?t \<and> ?t \<le> 32)"
    "\<not> (8192 \<le> ?t \<and> ?t \<le> 8202)" "?t \<noteq> 8232" "?t \<noteq> 8233"
    using w1 w7 w8 by linarith+
  with w2 w3 w6 w9 w10 w11 show "\<not> isspace ?t"
    unfolding isspace_def by blast
qed

lemma lower_constants:
  "lower_fixed 105" "lower_fixed 775" "lower_fixed 962" "lower_fixed 963"
  by (simp_all add: lower_fixed_def lower_full_def in_run_def lower_runs_def
      lower_chains_def)

lemma lower_at_nonempty: "lower_at before c after \<noteq> []"
  by (simp add: lower_at_def lower_full_def split: option.splits prod.splits)

lemma lower_at_fixed:
  assumes "t \<in> set (lower_at before c after)"
  shows "lower_fixed t"
proof (cases "c = 931 \<or> c = 304")
  case True
  with assms show ?thesis
    by (auto simp: lower_at_def lower_full_def lower_constants split: if_splits)
next
  case False
  show ?thesis
  proof (cases "find (in_run c) lower_runs")
    case None
    with False assms show ?thesis
      by (simp add: lower_at_def lower_full_def lower_fixed_def)
  next
    case (Some r)
    obtain lo hi step tlo where r: "r = (lo, hi, step, tlo)"
      by (cases r)
    with Some False assms have "t = tlo + (c - lo)"
      by (simp add: lower_at_def lower_full_def)
    with Some r show ?thesis
      using lower_target(1) by simp
  qed
qed

lemma lower_at_space:
  assumes "t \<in> set (lower_at before c after)" and "\<not> isspace c"
  shows "\<not> isspace t"
proof (cases "c = 931 \<or> c = 304")
  case True
  with assms(1) show ?thesis
    by (auto simp: lower_at_def lower_full_def isspace_def split: if_splits)
next
  case False
  show ?thesis
  proof (cases "find (in_run c) lower_runs")
    case None
    with False assms show ?thesis
      by (simp add: lower_at_def lower_full_def)
  next
    case (Some r)
    obtain lo hi step tlo where r: "r = (lo, hi, step, tlo)"
      by (cases r)
    with Some False assms(1) have "t = tlo + (c - lo)"
      by (simp add: lower_at_def lower_full_def)
    with Some r show ?thesis
      using lower_target(2) by simp
  qed
qed

lemma lower_at_of_fixed: "lower_fixed c \<Longrightarrow> lower_at before c after = [c]"
  by (simp add: lower_at_def lower_fixed_def)

lemma lower_from_of_fixed: "list_all lower_fixed s \<Longrightarrow> lower_from before s = s"
  by (induction s arbitrary: before) (simp_all add: lower_at_of_fixed)

lemma lower_from_fixed: "list_all lower_fixed (lower_from before s)"
  by (induction s arbitrary: before) (auto simp: list_all_iff dest: lower_at_fixed)

lemma lowercased_lower: "lowercased (lower s)"
  by (simp add: lowercased_def lower_def lower_from_fixed lower_from_of_fixed)

lemma lower_from_nonempty: "s \<noteq> [] \<Longrightarrow> lower_from before s \<noteq> []"
  by (cases s) (simp_all add: lower_at_nonempty)

lemma lower_from_last:
  "s \<noteq> [] \<Longrightarrow> \<exists>b. last (lower_from before s) \<in> set (lower_at b (last s) [])"
proof (induction s arbitrary: before)
  case Nil
  then show ?case by simp
next
  case (Cons c cs)
  show ?case
  proof (cases "cs = []")
    case True
    then show ?thesis
      using lower_at_nonempty [of before c "[]"] by (auto intro: last_in_set)
  next
    case False
    then have "lower_from (c # before) cs \<noteq> []"
      by (rule lower_from_nonempty)
    with False Cons.IH [of "c # before"] show ?thesis
      by simp
  qed
qed

lemma trimmed_nonempty: "s \<noteq> [] \<Longrightarrow> trimmed s = (\<not> isspace (hd s) \<and> \<not> isspace (last s))"
  by (cases s) (simp_all add: trimmed_def)

lemma trimmed_lower:
  assumes "trimmed s"
  shows "trimmed (lower s)"
proof (cases s)
  case Nil
  then show ?thesis by (simp add: lower_def trimmed_def)
next
  case (Cons c cs)
  with assms have c: "\<not> isspace c" and l: "\<not> isspace (last s)"
    by (simp_all add: trimmed_def)
  from Cons have ne: "lower s \<noteq> []"
    by (simp add: lower_def lower_at_nonempty)
  have "hd (lower s) \<in> set (lower_at [] c cs)"
    using lower_at_nonempty [of "[]" c cs] by (simp add: lower_def Cons)
  then have "\<not> isspace (hd (lower s))"
    using c by (rule lower_at_space)
  moreover obtain b where "last (lower s) \<in> set (lower_at b (last s) [])"
    using lower_from_last [of s "[]"] Cons by (auto simp: lower_def)
  then have "\<not> isspace (last (lower s))"
    using l by (rule lower_at_space)
  ultimately show ?thesis
    using ne by (simp add: trimmed_nonempty)
qed

text \<open>A string with a capital beyond ASCII is not a lowercased one.\<close>

lemma accented_capital_not_lowercased: "\<not> lowercased [201, 108]"
  by (simp add: lowercased_def lower_fixed_def lower_full_def in_run_def lower_runs_def
      lower_chains_def)

subsection \<open>The categorizers\<close>

text \<open>
  C3. The bands are closed below and tested from the highest: popularity 70.0 is
  \<^verbatim>\<open>"High"\<close>, 40.0 is \<^verbatim>\<open>"Medium"\<close>, 39.999 is \<^verbatim>\<open>"Low"\<close> and \<^verbatim>\<open>None\<close> is
  \<^verbatim>\<open>"Unknown"\<close>; the same holds of danceability with 75 and 50, and of energy with
  70 and 40. For every finite float the label is given by the two comparisons.
\<close>

theorem categorizer_boundaries:
  "popularity_tier (Some (float_lit 70)) = u ''High''
   \<and> popularity_tier (Some (float_lit 40)) = u ''Medium''
   \<and> popularity_tier (Some (float_lit (39999 / 1000))) = u ''Low''
   \<and> popularity_tier None = u ''Unknown''
   \<and> popularity_tier (Some (Finite s a)) =
       (if 70 \<le> signed s a then u ''High''
        else if 40 \<le> signed s a then u ''Medium'' else u ''Low'')
   \<and> danceability_label (Some (float_lit 75)) = u ''Very Danceable''
   \<and> danceability_label (Some (float_lit 50)) = u ''Danceable''
   \<and> danceability_label (Some (float_lit (49999 / 1000))) = u ''Low''
   \<and> danceability_label None = u ''Unknown''
   \<and> danceability_label (Some (Finite s a)) =
       (if 75 \<le> signed s a then u ''Very Danceable''
        else if 50 \<le> signed s a then u ''Danceable'' else u ''Low'')
   \<and> energy_label (Some (float_lit 70)) = u ''High''
   \<and> energy_label (Some (float_lit 40)) = u ''Medium''
   \<and> energy_label (Some (float_lit (39999 / 1000))) = u ''Low''
   \<and> energy_label None = u ''Unknown''
   \<and> energy_label (Some (Finite s a)) =
       (if 70 \<le> signed s a then u ''High''
        else if 40 \<le> signed s a then u ''Medium'' else u ''Low'')"
proof -
  have pop: "popularity_tier (Some (Finite t b)) =
      (if 70 \<le> signed t b then u ''High''
       else if 40 \<le> signed t b then u ''Medium'' else u ''Low'')" for t b
    by (simp add: popularity_tier_def)
  have dance: "danceability_label (Some (Finite t b)) =
      (if 75 \<le> signed t b then u ''Very Danceable''
       else if 50 \<le> signed t b then u ''Danceable'' else u ''Low'')" for t b
    by (simp add: danceability_label_def)
  have en: "energy_label (Some (Finite t b)) =
      (if 70 \<le> signed t b then u ''High''
       else if 40 \<le> signed t b then u ''Medium'' else u ''Low'')" for t b
    by (simp add: energy_label_def)
  have none: "popularity_tier None = u ''Unknown''" "danceability_label None = u ''Unknown''"
    "energy_label None = u ''Unknown''"
    by (simp_all add: popularity_tier_def danceability_label_def energy_label_def)
  have p: "popularity_tier (Some (float_lit 70)) = u ''High''"
    "popularity_tier (Some (float_lit 40)) = u ''Medium''"
    "popularity_tier (Some (float_lit (39999 / 1000))) = u ''Low''"
    by (simp_all add: float_lit_thresholds float_lit_below pop signed_def)
  have d: "danceability_label (Some (float_lit 75)) = u ''Very Danceable''"
    "danceability_label (Some (float_lit 50)) = u ''Danceable''"
    "danceability_label (Some (float_lit (49999 / 1000))) = u ''Low''"
    by (simp_all add: float_lit_thresholds float_lit_below dance signed_def)
  have e: "energy_label (Some (float_lit 70)) = u ''High''"
    "energy_label (Some (float_lit 40)) = u ''Medium''"
    "energy_label (Some (float_lit (39999 / 1000))) = u ''Low''"
    by (simp_all add: float_lit_thresholds float_lit_below en signed_def)
  show ?thesis
    using pop [of s a] dance [of s a] en [of s a] none p d e by simp
qed

text \<open>
  C4. The explicit label: \<^verbatim>\<open>None\<close> is \<^verbatim>\<open>"Clean"\<close>; a number is \<^verbatim>\<open>"Explicit"\<close> when it
  is not zero and \<^verbatim>\<open>"Clean"\<close> when it is; a string, stripped and lowercased, is
  \<^verbatim>\<open>"Explicit"\<close> when it is one of true, t, yes, y, 1, explicit, \<^verbatim>\<open>"Clean"\<close> when it is
  one of false, f, no, n, 0, clean, and \<^verbatim>\<open>"Clean"\<close> otherwise. The function returns one
  of the two labels on every value.
\<close>

theorem explicit_label_cases:
  "explicit_label PyNone = u ''Clean''
   \<and> explicit_label (PyInt i) = (if i = 0 then u ''Clean'' else u ''Explicit'')
   \<and> explicit_label (PyBool b) = (if b then u ''Explicit'' else u ''Clean'')
   \<and> explicit_label (PyFloat (Finite s a)) = (if a = 0 then u ''Clean'' else u ''Explicit'')
   \<and> explicit_label (PyFloat (Infinity s)) = u ''Explicit''
   \<and> explicit_label (PyFloat NaN) = u ''Explicit''
   \<and> explicit_label (PyStr v) =
       (if lower (strip v) \<in> {u ''true'', u ''t'', u ''yes'', u ''y'', u ''1'', u ''explicit''}
        then u ''Explicit''
        else if lower (strip v) \<in> {u ''false'', u ''f'', u ''no'', u ''n'', u ''0'', u ''clean''}
        then u ''Clean''
        else u ''Clean'')
   \<and> (explicit_label x = u ''Explicit'' \<or> explicit_label x = u ''Clean'')
   \<and> explicit_label (PyInt 1) = u ''Explicit''
   \<and> explicit_label (PyInt 0) = u ''Clean''
   \<and> explicit_label (PyStr (u ''Yes'')) = u ''Explicit''
   \<and> explicit_label (PyStr (u '' TRUE '')) = u ''Explicit''
   \<and> explicit_label (PyStr (u ''No'')) = u ''Clean''
   \<and> explicit_label (PyStr (u ''maybe'')) = u ''Clean''"
proof -
  have num: "explicit_label (PyFloat (Finite s a)) = (if a = 0 then u ''Clean'' else u ''Explicit'')"
    by (cases s) (simp_all add: signed_def)
  have two: "explicit_label x = u ''Explicit'' \<or> explicit_label x = u ''Clean''"
    by (cases x) (simp_all add: Let_def)
  have ex: "explicit_label (PyStr (u ''Yes'')) = u ''Explicit''"
    "explicit_label (PyStr (u '' TRUE '')) = u ''Explicit''"
    "explicit_label (PyStr (u ''No'')) = u ''Clean''"
    "explicit_label (PyStr (u ''maybe'')) = u ''Clean''"
    by (simp_all add: lower_ascii_examples) (simp_all add: u_def)
  show ?thesis
    using num two ex by (simp add: Let_def)
qed

subsection \<open>The field lookup\<close>

lemma probe_nonblank: "probe row k = Inr (nonblank row k)"
proof (cases "row k")
  case None
  then show ?thesis
    by (simp add: probe_def contains_def nonblank_def)
next
  case (Some v)
  then show ?thesis
    by (cases v; cases "the v")
      (simp_all add: probe_def contains_def subscript_def and_then_def nonblank_def)
qed

lemma subscript_nonblank: "nonblank row k \<Longrightarrow> subscript row k = Inr (value_at row k)"
  by (cases "row k") (simp_all add: nonblank_def subscript_def value_at_def)

lemma pick_step:
  "pick row (n # ns) d =
     (if nonblank row n then Inr (value_at row n)
      else if nonblank row (BOM # n) then Inr (value_at row (BOM # n))
      else pick row ns d)"
  by (simp add: probe_nonblank subscript_nonblank and_then_def Let_def)

declare pick.simps(2) [simp del]

lemma pick_resolved: "pick row names d = Inr (resolved row names d)"
proof (induction names)
  case Nil
  show ?case by (simp add: resolved_def)
next
  case (Cons n ns)
  show ?case
    unfolding pick_step using Cons.IH by (auto simp: resolved_def matches_def)
qed

lemma nonblank_value: "row k = Some (Some (c # cs)) \<Longrightarrow> nonblank row k \<and> value_at row k = Some (c # cs)"
  by (simp add: nonblank_def value_at_def)

lemma example_rows:
  "nonblank both_row (u ''song'')" "value_at both_row (u ''song'') = Some (u ''A'')"
  "nonblank both_row (u ''track_name'')"
  "marked_row (u ''song'') = None" "marked_row (u ''track_name'') = Some (Some (u ''B''))"
  "\<not> nonblank marked_row (u ''song'')" "nonblank marked_row (BOM # u ''song'')"
  "value_at marked_row (BOM # u ''song'') = Some (u ''A'')"
  "u ''A'' \<noteq> u ''B''"
  by (simp_all add: both_row_def marked_row_def nonblank_def value_at_def u_def BOM_def)

text \<open>
  C5, as amended. The lookup returns the value of the first candidate that matches, where
  a candidate matches under its plain name or, failing that, under its name with the
  byte-order mark in front, with a value that is neither \<^verbatim>\<open>None\<close> nor the empty string;
  it returns the default when no candidate matches in either form. In particular, with
  \<^verbatim>\<open>"song"\<close> and \<^verbatim>\<open>"track_name"\<close> both non-blank, the candidates \<^verbatim>\<open>song\<close>,
  \<^verbatim>\<open>track_name\<close>, \<^verbatim>\<open>name\<close> give the value of \<^verbatim>\<open>"song"\<close>.
\<close>

theorem pick_first_match:
  "pick row names d =
     Inr (case find (\<lambda>n. nonblank row n \<or> nonblank row (BOM # n)) names of
            None \<Rightarrow> d
          | Some n \<Rightarrow> if nonblank row n then value_at row n else value_at row (BOM # n))
   \<and> (nonblank row (u ''song'') \<and> nonblank row (u ''track_name'') \<longrightarrow>
        pick row [u ''song'', u ''track_name'', u ''name''] d
          = Inr (value_at row (u ''song'')))"
proof -
  have "matches row = (\<lambda>n. nonblank row n \<or> nonblank row (BOM # n))"
    by (rule ext) (simp add: matches_def)
  then show ?thesis
    using pick_resolved [of row names d] by (simp add: resolved_def pick_step)
qed

theorem pick_first_match_witness:
  "nonblank both_row (u ''song'') \<and> nonblank both_row (u ''track_name'')
   \<and> pick both_row [u ''song'', u ''track_name'', u ''name''] (Some []) = Inr (Some (u ''A''))"
  using pick_first_match [of both_row "[]" "Some []"] by (simp add: example_rows)

text \<open>
  The claim C5 as it is written, with a candidate present only under its plain name,
  fails on a record that has the marked name of an earlier candidate: \<^verbatim>\<open>"song"\<close> is not
  a key, \<^verbatim>\<open>"track_name"\<close> is the first candidate that is present with a non-blank value,
  and the lookup returns the value under the marked \<^verbatim>\<open>"song"\<close>.
\<close>

theorem pick_plain_name_counterexample:
  "marked_row (u ''song'') = None
   \<and> marked_row (u ''track_name'') = Some (Some (u ''B''))
   \<and> pick marked_row [u ''song'', u ''track_name'', u ''name''] (Some []) = Inr (Some (u ''A''))
   \<and> pick marked_row [u ''song'', u ''track_name'', u ''name''] (Some []) \<noteq> Inr (Some (u ''B''))"
  by (simp add: pick_step example_rows)

lemma more_example_rows:
  "only_marked_row (BOM # u ''track_name'') = Some (Some (u ''B''))"
  "\<not> nonblank only_marked_row (u ''song'')" "\<not> nonblank only_marked_row (u ''track_name'')"
  "\<not> nonblank only_marked_row (u ''name'')"
  "\<not> nonblank only_marked_row (BOM # u ''song'')"
  "\<not> nonblank only_marked_row (BOM # u ''name'')"
  "nonblank plain_and_marked_row (u ''song'')"
  "value_at plain_and_marked_row (u ''song'') = Some (u ''Z'')"
  "nonblank plain_and_marked_row (BOM # u ''song'')"
  "value_at plain_and_marked_row (BOM # u ''song'') = Some (u ''X'')"
  "nonblank plain_and_marked_row (u ''track_name'')"
  "u ''Z'' \<noteq> u ''X''" "u ''B'' = [66]"
  by (simp_all add: only_marked_row_def plain_and_marked_row_def nonblank_def value_at_def
      u_def BOM_def)

text \<open>
  C6. Each candidate is also looked up with the byte-order mark in front of its name.
  So when the only key of the record that matches is the marked name of a candidate,
  with a value that is neither \<^verbatim>\<open>None\<close> nor empty, the lookup returns that value.
\<close>

theorem pick_marked_only:
  assumes "n \<in> set names"
    and "row (BOM # n) = Some (Some (c # cs))"
    and "\<forall>k\<in>set names. \<not> nonblank row k"
    and "\<forall>k\<in>set names. nonblank row (BOM # k) \<longrightarrow> k = n"
  shows "pick row names d = Inr (Some (c # cs))"
proof -
  from assms(2) have n: "nonblank row (BOM # n)" "value_at row (BOM # n) = Some (c # cs)"
    by (simp_all add: nonblank_value)
  then have "matches row n"
    by (simp add: matches_def)
  with assms(1) have "find (matches row) names \<noteq> None"
    by (auto simp: find_None_iff)
  then obtain m where m: "find (matches row) names = Some m"
    by auto
  then have "m \<in> set names" and "matches row m"
    by (auto simp: find_Some_iff)
  with assms(3,4) have "m = n" and "\<not> nonblank row m"
    by (auto simp: matches_def)
  with m n show ?thesis
    by (simp add: pick_resolved resolved_def)
qed

theorem pick_marked_only_witness:
  "only_marked_row (BOM # u ''track_name'') = Some (Some (u ''B''))
   \<and> pick only_marked_row [u ''song'', u ''track_name'', u ''name''] (Some [])
       = Inr (Some (u ''B''))"
proof -
  have "pick only_marked_row [u ''song'', u ''track_name'', u ''name''] (Some [])
      = Inr (Some (66 # []))"
  proof (rule pick_marked_only [where n = "u ''track_name''"])
    show "u ''track_name'' \<in> set [u ''song'', u ''track_name'', u ''name'']"
      by simp
    show "only_marked_row (BOM # u ''track_name'') = Some (Some [66])"
      using more_example_rows by simp
    show "\<forall>k\<in>set [u ''song'', u ''track_name'', u ''name'']. \<not> nonblank only_marked_row k"
      by (simp add: more_example_rows)
    show "\<forall>k\<in>set [u ''song'', u ''track_name'', u ''name''].
        nonblank only_marked_row (BOM # k) \<longrightarrow> k = u ''track_name''"
      by (simp add: more_example_rows)
  qed
  then show ?thesis
    by (simp add: more_example_rows)
qed

text \<open>
  C10, as amended. For each candidate, in the order of the list, the lookup tries the
  plain name, then the name with the byte-order mark in front, and only then goes on to
  the next candidate. So when the marked name of a candidate has a non-blank value and
  the plain name of a later candidate has one too, the value under the marked name is
  returned, provided that nothing before it matches: neither the plain name of that
  candidate nor either form of a candidate before it.
\<close>

theorem pick_probe_order:
  "pick row (n # ns) d =
     (if nonblank row n then Inr (value_at row n)
      else if nonblank row (BOM # n) then Inr (value_at row (BOM # n))
      else pick row ns d)
   \<and> ((\<forall>k\<in>set pre. \<not> nonblank row k \<and> \<not> nonblank row (BOM # k))
        \<and> \<not> nonblank row e \<and> nonblank row (BOM # e)
        \<and> l \<in> set post \<and> nonblank row l
      \<longrightarrow> pick row (pre @ e # post) d = Inr (value_at row (BOM # e)))"
proof -
  have "pick row (pre @ e # post) d = Inr (value_at row (BOM # e))"
    if "\<forall>k\<in>set pre. \<not> nonblank row k \<and> \<not> nonblank row (BOM # k)"
      and "\<not> nonblank row e" and "nonblank row (BOM # e)"
    using that by (induction pre) (simp_all add: pick_step)
  then show ?thesis
    by (simp add: pick_step)
qed

theorem pick_probe_order_witness:
  "\<not> nonblank marked_row (u ''song'') \<and> nonblank marked_row (BOM # u ''song'')
   \<and> u ''track_name'' \<in> set [u ''track_name'', u ''name'']
   \<and> nonblank marked_row (u ''track_name'')
   \<and> pick marked_row ([] @ u ''song'' # [u ''track_name'', u ''name'']) (Some [])
       = Inr (Some (u ''A''))"
proof -
  have "nonblank marked_row (u ''track_name'')"
    by (simp add: marked_row_def nonblank_def u_def BOM_def)
  then show ?thesis
    using pick_probe_order [of marked_row "u ''song''" "[]" "Some []" "[]" "u ''song''"
        "u ''track_name''" "[u ''track_name'', u ''name'']"]
    by (simp add: example_rows)
qed

text \<open>
  The claim C10 as it is written fails on a record that also has a non-blank value under
  the plain name of the earlier candidate: the marked \<^verbatim>\<open>"song"\<close> and the plain
  \<^verbatim>\<open>"track_name"\<close> are both non-blank, and the lookup returns the value under the plain
  \<^verbatim>\<open>"song"\<close>, not the one under the marked name.
\<close>

theorem pick_marked_earlier_counterexample:
  "nonblank plain_and_marked_row (BOM # u ''song'')
   \<and> value_at plain_and_marked_row (BOM # u ''song'') = Some (u ''X'')
   \<and> nonblank plain_and_marked_row (u ''track_name'')
   \<and> pick plain_and_marked_row [u ''song'', u ''track_name'', u ''name''] (Some [])
       = Inr (Some (u ''Z''))
   \<and> pick plain_and_marked_row [u ''song'', u ''track_name'', u ''name''] (Some [])
       \<noteq> Inr (Some (u ''X''))"
  by (simp add: pick_step more_example_rows)

subsection \<open>The row function\<close>

lemma transform_row_resolved:
  "transform_row row =
     Inr (Map.empty
       (u ''track_name_clean'' \<mapsto>
          PyStr (strip (str_of (resolved row [u ''song'', u ''track_name'', u ''name'']
            (Some [])))),
        u ''artists_clean'' \<mapsto>
          PyStr (strip (str_of (resolved row
            [u ''Artist(s)'', u ''artists'', u ''artist_name'', u ''artist''] (Some [])))),
        u ''Album'' \<mapsto>
          PyStr (strip (str_of (resolved row [u ''Album'', u ''album'', u ''album_name'']
            (Some [])))),
        u ''Genre'' \<mapsto>
          PyStr (lower (strip (str_of (resolved row
            [u ''Genre'', u ''genre'', u ''track_genre''] (Some []))))),
        u ''duration_minutes'' \<mapsto>
          of_float (parse_duration (resolved row
            [u ''Length'', u ''duration'', u ''duration_ms''] (Some []))),
        u ''Popularity'' \<mapsto>
          of_float (safe_float (resolved row [u ''Popularity'', u ''popularity''] (Some []))),
        u ''popularity_tier'' \<mapsto>
          PyStr (popularity_tier (safe_float (resolved row
            [u ''Popularity'', u ''popularity''] (Some [])))),
        u ''Danceability'' \<mapsto>
          of_float (safe_float (resolved row [u ''Danceability'', u ''danceability'']
            (Some []))),
        u ''danceability_label'' \<mapsto>
          PyStr (danceability_label (safe_float (resolved row
            [u ''Danceability'', u ''danceability''] (Some [])))),
        u ''Energy'' \<mapsto>
          of_float (safe_float (resolved row [u ''Energy'', u ''energy''] (Some []))),
        u ''energy_label'' \<mapsto>
          PyStr (energy_label (safe_float (resolved row [u ''Energy'', u ''energy'']
            (Some [])))),
        u ''explicit_label'' \<mapsto>
          PyStr (explicit_label (of_raw (resolved row [u ''Explicit'', u ''explicit'']
            (Some []))))))"
  by (simp add: transform_row_def pick_resolved and_then_def Let_def)

lemma field_names_distinct:
  "distinct [u ''track_name_clean'', u ''artists_clean'', u ''Album'', u ''Genre'',
      u ''duration_minutes'', u ''Popularity'', u ''popularity_tier'', u ''Danceability'',
      u ''danceability_label'', u ''Energy'', u ''energy_label'', u ''explicit_label'']"
  by (simp add: u_def)

text \<open>
  C1. On every raw record, the empty one included, the row function raises nothing and
  returns a record whose keys are exactly the twelve canonical names, which are the
  twelve names of \<^verbatim>\<open>OUTPUT_FIELDS\<close>.
\<close>

theorem transform_row_total:
  "\<exists>rec. transform_row row = Inr rec
     \<and> dom rec = {u ''track_name_clean'', u ''artists_clean'', u ''Album'', u ''Genre'',
          u ''duration_minutes'', u ''Popularity'', u ''popularity_tier'', u ''Danceability'',
          u ''danceability_label'', u ''Energy'', u ''energy_label'', u ''explicit_label''}
     \<and> dom rec = set OUTPUT_FIELDS
     \<and> card (dom rec) = 12
     \<and> (\<exists>rec0. transform_row Map.empty = Inr rec0 \<and> dom rec0 = set OUTPUT_FIELDS)"
proof -
  have "card (set OUTPUT_FIELDS) = 12"
    using field_names_distinct distinct_card [of OUTPUT_FIELDS]
    by (simp add: OUTPUT_FIELDS_def)
  then show ?thesis
    unfolding transform_row_resolved
    by (simp add: OUTPUT_FIELDS_def insert_commute)
qed

lemma last_dropWhile: "dropWhile P xs \<noteq> [] \<Longrightarrow> last (dropWhile P xs) = last xs"
  by (induction xs) (auto split: if_splits)

lemma trimmed_strip: "trimmed (strip s)"
proof (cases "strip s = []")
  case True
  then show ?thesis by (simp add: trimmed_def)
next
  case False
  define t where "t = dropWhile isspace s"
  define r where "r = dropWhile isspace (rev t)"
  have s: "strip s = rev r"
    by (simp add: strip_def r_def t_def)
  with False have r: "r \<noteq> []"
    by simp
  then have t: "t \<noteq> []"
    by (auto simp: r_def)
  have "last (strip s) = hd r"
    using r by (simp add: s last_rev)
  moreover have "\<not> isspace (hd r)"
    using r unfolding r_def by (rule hd_dropWhile)
  moreover have "hd (strip s) = last r"
    using r by (simp add: s hd_rev)
  moreover have "last r = last (rev t)"
    using r unfolding r_def by (rule last_dropWhile)
  moreover have "last (rev t) = hd t"
    using t by (simp add: last_rev)
  moreover have "\<not> isspace (hd t)"
    using t unfolding t_def by (rule hd_dropWhile)
  ultimately show ?thesis
    using False by (simp add: trimmed_nonempty)
qed

text \<open>
  C8. In every record that the row function returns, the track name, the artists, the
  album and the genre are the stripped values of the lookup and have no whitespace at
  either end, and the genre is lowercased as well: it is the result of \<^verbatim>\<open>str.lower()\<close>,
  which \<^verbatim>\<open>str.lower()\<close> leaves unchanged, and none of its code points has a lowercase form
  other than itself.
\<close>

theorem string_fields_trimmed:
  "(\<exists>rec t a al g rt ra ral rg. transform_row row = Inr rec
     \<and> pick row [u ''song'', u ''track_name'', u ''name''] (Some []) = Inr rt
     \<and> pick row [u ''Artist(s)'', u ''artists'', u ''artist_name'', u ''artist''] (Some [])
         = Inr ra
     \<and> pick row [u ''Album'', u ''album'', u ''album_name''] (Some []) = Inr ral
     \<and> pick row [u ''Genre'', u ''genre'', u ''track_genre''] (Some []) = Inr rg
     \<and> rec (u ''track_name_clean'') = Some (PyStr t) \<and> t = strip (str_of rt)
     \<and> rec (u ''artists_clean'') = Some (PyStr a) \<and> a = strip (str_of ra)
     \<and> rec (u ''Album'') = Some (PyStr al) \<and> al = strip (str_of ral)
     \<and> rec (u ''Genre'') = Some (PyStr g) \<and> g = lower (strip (str_of rg))
     \<and> trimmed t \<and> trimmed a \<and> trimmed al \<and> trimmed g \<and> lowercased g)
   \<and> (\<exists>rec. transform_row accented_row = Inr rec
     \<and> rec (u ''Genre'') = Some (PyStr [233, 108, 101, 99, 116, 114, 111]))"
proof
  show "\<exists>rec t a al g rt ra ral rg. transform_row row = Inr rec
     \<and> pick row [u ''song'', u ''track_name'', u ''name''] (Some []) = Inr rt
     \<and> pick row [u ''Artist(s)'', u ''artists'', u ''artist_name'', u ''artist''] (Some [])
         = Inr ra
     \<and> pick row [u ''Album'', u ''album'', u ''album_name''] (Some []) = Inr ral
     \<and> pick row [u ''Genre'', u ''genre'', u ''track_genre''] (Some []) = Inr rg
     \<and> rec (u ''track_name_clean'') = Some (PyStr t) \<and> t = strip (str_of rt)
     \<and> rec (u ''artists_clean'') = Some (PyStr a) \<and> a = strip (str_of ra)
     \<and> rec (u ''Album'') = Some (PyStr al) \<and> al = strip (str_of ral)
     \<and> rec (u ''Genre'') = Some (PyStr g) \<and> g = lower (strip (str_of rg))
     \<and> trimmed t \<and> trimmed a \<and> trimmed al \<and> trimmed g \<and> lowercased g"
    unfolding transform_row_resolved pick_resolved
    using field_names_distinct
    by (simp add: trimmed_strip trimmed_lower lowercased_lower)
next
  have g: "resolved accented_row [u ''Genre'', u ''genre'', u ''track_genre''] (Some [])
      = Some [32, 201, 76, 69, 67, 84, 82, 79, 32]"
    by (simp add: resolved_def matches_def nonblank_def value_at_def accented_row_def
        u_def BOM_def)
  have s: "strip [32, 201, 76, 69, 67, 84, 82, 79, 32] = [201, 76, 69, 67, 84, 82, 79]"
    by (simp add: strip_def isspace_def)
  show "\<exists>rec. transform_row accented_row = Inr rec
     \<and> rec (u ''Genre'') = Some (PyStr [233, 108, 101, 99, 116, 114, 111])"
    unfolding transform_row_resolved g
    using field_names_distinct
    by (simp add: str_of_def s lower_examples)
qed

lemma resolved_blank_or_value:
  "resolved row names (Some []) = Some []
   \<or> (\<exists>c cs. resolved row names (Some []) = Some (c # cs))"
proof (cases "find (matches row) names")
  case None
  then show ?thesis by (simp add: resolved_def)
next
  case (Some n)
  then have "matches row n"
    by (auto simp: find_Some_iff)
  then have "\<exists>c cs. resolved row names (Some []) = Some (c # cs)"
    using Some
    by (auto simp: resolved_def matches_def nonblank_def value_at_def
        split: option.splits list.splits)
  then show ?thesis ..
qed

lemma resolved_missing:
  "\<forall>n\<in>set names. \<not> matches row n \<Longrightarrow> resolved row names d = d"
proof -
  assume "\<forall>n\<in>set names. \<not> matches row n"
  then have "find (matches row) names = None"
    by (simp add: find_None_iff)
  then show ?thesis
    by (simp add: resolved_def)
qed

lemma float_of_str_empty: "float_of_str [] = Inl ValueError"
  by (simp add: float_of_str_eval u_def)

lemma parse_duration_effective:
  "parse_duration (Some v) =
     (if strip v = [] then None
      else (case clock_attempt (strip v) of
              Some z \<Rightarrow> Some z
            | None \<Rightarrow> (case float_of_str (strip v) of Inr z \<Rightarrow> Some z | Inl e \<Rightarrow> None)))"
proof (cases "plain_attempt (strip v)")
  case None
  then have "millis_attempt (strip v) = None"
    by (rule millis_after_plain)
  with None show ?thesis
    by (simp add: parse_duration_unfold plain_attempt_def split: option.splits sum.splits)
next
  case (Some z)
  then show ?thesis
    by (simp add: parse_duration_unfold plain_attempt_def split: option.splits sum.splits)
qed

text \<open>
  C7. The four numeric fields of the record that the row function returns: each is
  \<^verbatim>\<open>None\<close> when no candidate column matches (the lookup then gives the empty string)
  and when the value does not parse, and it is the parsed float otherwise, so a value
  that parses to zero gives the float zero and never \<^verbatim>\<open>None\<close>. For the duration, not
  to parse is to be blank or to fail both the clock form and the float conversion.
\<close>

theorem numeric_fields_none_or_value:
  "\<exists>rec len pop dance en.
      transform_row row = Inr rec
    \<and> pick row [u ''Length'', u ''duration'', u ''duration_ms''] (Some []) = Inr (Some len)
    \<and> pick row [u ''Popularity'', u ''popularity''] (Some []) = Inr (Some pop)
    \<and> pick row [u ''Danceability'', u ''danceability''] (Some []) = Inr (Some dance)
    \<and> pick row [u ''Energy'', u ''energy''] (Some []) = Inr (Some en)
    \<and> rec (u ''duration_minutes'') =
        Some (if strip len = [] then PyNone
              else (case clock_attempt (strip len) of
                      Some z \<Rightarrow> PyFloat z
                    | None \<Rightarrow>
                        (case float_of_str (strip len) of
                           Inr z \<Rightarrow> PyFloat z
                         | Inl e \<Rightarrow> PyNone)))
    \<and> rec (u ''Popularity'') =
        Some (case float_of_str pop of Inr z \<Rightarrow> PyFloat z | Inl e \<Rightarrow> PyNone)
    \<and> rec (u ''Danceability'') =
        Some (case float_of_str dance of Inr z \<Rightarrow> PyFloat z | Inl e \<Rightarrow> PyNone)
    \<and> rec (u ''Energy'') =
        Some (case float_of_str en of Inr z \<Rightarrow> PyFloat z | Inl e \<Rightarrow> PyNone)
    \<and> ((\<forall>n\<in>set [u ''Length'', u ''duration'', u ''duration_ms'']. \<not> matches row n)
        \<longrightarrow> len = [] \<and> rec (u ''duration_minutes'') = Some PyNone)
    \<and> ((\<forall>n\<in>set [u ''Popularity'', u ''popularity'']. \<not> matches row n)
        \<longrightarrow> pop = [] \<and> rec (u ''Popularity'') = Some PyNone)
    \<and> ((\<forall>n\<in>set [u ''Danceability'', u ''danceability'']. \<not> matches row n)
        \<longrightarrow> dance = [] \<and> rec (u ''Danceability'') = Some PyNone)
    \<and> ((\<forall>n\<in>set [u ''Energy'', u ''energy'']. \<not> matches row n)
        \<longrightarrow> en = [] \<and> rec (u ''Energy'') = Some PyNone)"
proof -
  let ?L = "[u ''Length'', u ''duration'', u ''duration_ms'']"
  let ?P = "[u ''Popularity'', u ''popularity'']"
  let ?D = "[u ''Danceability'', u ''danceability'']"
  let ?E = "[u ''Energy'', u ''energy'']"
  obtain len where len: "resolved row ?L (Some []) = Some len"
    using resolved_blank_or_value by blast
  obtain pop where pop: "resolved row ?P (Some []) = Some pop"
    using resolved_blank_or_value by blast
  obtain dance where dance: "resolved row ?D (Some []) = Some dance"
    using resolved_blank_or_value by blast
  obtain en where en: "resolved row ?E (Some []) = Some en"
    using resolved_blank_or_value by blast
  obtain rec where tr: "transform_row row = Inr rec"
    by (simp add: transform_row_resolved)
  have dur: "of_float (parse_duration (Some v)) =
      (if strip v = [] then PyNone
       else (case clock_attempt (strip v) of
               Some z \<Rightarrow> PyFloat z
             | None \<Rightarrow>
                 (case float_of_str (strip v) of Inr z \<Rightarrow> PyFloat z | Inl e \<Rightarrow> PyNone)))"
    for v
    by (simp add: parse_duration_effective of_float_def split: option.splits sum.splits)
  have num: "of_float (safe_float (Some v)) =
      (case float_of_str v of Inr z \<Rightarrow> PyFloat z | Inl e \<Rightarrow> PyNone)" for v
    by (simp add: safe_float_def float_of_def of_float_def split: sum.splits)
  have f1: "rec (u ''duration_minutes'') = Some (of_float (parse_duration (Some len)))"
    using tr field_names_distinct unfolding transform_row_resolved len by auto
  have f2: "rec (u ''Popularity'') = Some (of_float (safe_float (Some pop)))"
    using tr field_names_distinct unfolding transform_row_resolved pop by auto
  have f3: "rec (u ''Danceability'') = Some (of_float (safe_float (Some dance)))"
    using tr field_names_distinct unfolding transform_row_resolved dance by auto
  have f4: "rec (u ''Energy'') = Some (of_float (safe_float (Some en)))"
    using tr field_names_distinct unfolding transform_row_resolved en by auto
  have miss: "v = []"
    if "\<forall>n\<in>set names. \<not> matches row n" and "resolved row names (Some []) = Some v"
    for names v
    using resolved_missing [of names row "Some []"] that by simp
  have blank: "of_float (parse_duration (Some [])) = PyNone"
    "of_float (safe_float (Some [])) = PyNone"
    by (simp_all add: dur num strip_def float_of_str_empty)
  have m1: "(\<forall>n\<in>set ?L. \<not> matches row n)
      \<longrightarrow> len = [] \<and> rec (u ''duration_minutes'') = Some PyNone"
    using miss [OF _ len] f1 blank by auto
  have m2: "(\<forall>n\<in>set ?P. \<not> matches row n)
      \<longrightarrow> pop = [] \<and> rec (u ''Popularity'') = Some PyNone"
    using miss [OF _ pop] f2 blank by auto
  have m3: "(\<forall>n\<in>set ?D. \<not> matches row n)
      \<longrightarrow> dance = [] \<and> rec (u ''Danceability'') = Some PyNone"
    using miss [OF _ dance] f3 blank by auto
  have m4: "(\<forall>n\<in>set ?E. \<not> matches row n)
      \<longrightarrow> en = [] \<and> rec (u ''Energy'') = Some PyNone"
    using miss [OF _ en] f4 blank by auto
  have p: "pick row ?L (Some []) = Inr (Some len)" "pick row ?P (Some []) = Inr (Some pop)"
    "pick row ?D (Some []) = Inr (Some dance)" "pick row ?E (Some []) = Inr (Some en)"
    by (simp_all add: pick_resolved len pop dance en)
  from tr p f1 [unfolded dur] f2 [unfolded num] f3 [unfolded num] f4 [unfolded num]
    m1 m2 m3 m4
  show ?thesis
    by blast
qed

lemma zero_row_lookups:
  "pick zero_row [u ''Length'', u ''duration'', u ''duration_ms''] (Some [])
     = Inr (Some (u ''0:00''))"
  "pick zero_row [u ''Popularity'', u ''popularity''] (Some []) = Inr (Some (u ''0''))"
  "pick zero_row [u ''Danceability'', u ''danceability''] (Some []) = Inr (Some (u ''abc''))"
  "\<not> matches zero_row (u ''Energy'')" "\<not> matches zero_row (u ''energy'')"
  by (simp_all add: pick_step zero_row_def matches_def nonblank_def value_at_def u_def BOM_def)

lemma zero_examples:
  "strip (u ''0:00'') = u ''0:00''" "u ''0:00'' \<noteq> []"
  "clock_attempt (u ''0:00'') = Some (Finite False 0)"
  "float_of_str (u ''0'') = Inr (Finite False 0)"
  "float_of_str (u ''abc'') = Inl ValueError"
proof -
  have parts: "map strip (split 58 (u ''0:00'')) = [u ''0'', u ''00'']"
    by (simp add: str_eval)
  have colon: "58 \<in> set (u ''0:00'')"
    by (simp add: u_def)
  have zero: "float_of_str (u ''0'') = Inr (Finite False 0)"
    by (simp add: float_eval u_def float_of_str_eval)
  show "float_of_str (u ''0'') = Inr (Finite False 0)"
    by (rule zero)
  show "clock_attempt (u ''0:00'') = Some (Finite False 0)"
    by (simp add: clock_attempt_def colon parts zero float_of_str_examples and_then_def
        float_lit_60 float_eval)
  show "strip (u ''0:00'') = u ''0:00''" "u ''0:00'' \<noteq> []"
    by (simp_all add: str_eval)
  show "float_of_str (u ''abc'') = Inl ValueError"
    by (simp add: float_eval u_def float_of_str_eval)
qed

theorem numeric_fields_none_or_value_witness:
  "(\<exists>rec. transform_row Map.empty = Inr rec
      \<and> rec (u ''duration_minutes'') = Some PyNone \<and> rec (u ''Popularity'') = Some PyNone
      \<and> rec (u ''Danceability'') = Some PyNone \<and> rec (u ''Energy'') = Some PyNone)
   \<and> (\<exists>rec. transform_row zero_row = Inr rec
      \<and> rec (u ''duration_minutes'') = Some (PyFloat (Finite False 0))
      \<and> rec (u ''Popularity'') = Some (PyFloat (Finite False 0))
      \<and> rec (u ''Danceability'') = Some PyNone \<and> rec (u ''Energy'') = Some PyNone)"
proof
  have none: "\<not> matches Map.empty n" for n
    by (simp add: matches_def nonblank_def)
  from numeric_fields_none_or_value [of Map.empty]
  show "\<exists>rec. transform_row Map.empty = Inr rec
      \<and> rec (u ''duration_minutes'') = Some PyNone \<and> rec (u ''Popularity'') = Some PyNone
      \<and> rec (u ''Danceability'') = Some PyNone \<and> rec (u ''Energy'') = Some PyNone"
    using none by auto
next
  from numeric_fields_none_or_value [of zero_row]
  obtain rec len pop dance en where r: "transform_row zero_row = Inr rec"
    and "Inr (Some (u ''0:00'')) = Inr (Some len)"
    and "Inr (Some (u ''0'')) = Inr (Some pop)"
    and "Inr (Some (u ''abc'')) = Inr (Some dance)"
    and "rec (u ''duration_minutes'') =
        Some (if strip len = [] then PyNone
              else (case clock_attempt (strip len) of
                      Some z \<Rightarrow> PyFloat z
                    | None \<Rightarrow>
                        (case float_of_str (strip len) of
                           Inr z \<Rightarrow> PyFloat z
                         | Inl e \<Rightarrow> PyNone)))"
    and "rec (u ''Popularity'') =
        Some (case float_of_str pop of Inr z \<Rightarrow> PyFloat z | Inl e \<Rightarrow> PyNone)"
    and "rec (u ''Danceability'') =
        Some (case float_of_str dance of Inr z \<Rightarrow> PyFloat z | Inl e \<Rightarrow> PyNone)"
    and "(\<forall>n\<in>set [u ''Energy'', u ''energy'']. \<not> matches zero_row n)
        \<longrightarrow> en = [] \<and> rec (u ''Energy'') = Some PyNone"
    unfolding zero_row_lookups by blast
  then show "\<exists>rec. transform_row zero_row = Inr rec
      \<and> rec (u ''duration_minutes'') = Some (PyFloat (Finite False 0))
      \<and> rec (u ''Popularity'') = Some (PyFloat (Finite False 0))
      \<and> rec (u ''Danceability'') = Some PyNone \<and> rec (u ''Energy'') = Some PyNone"
    using zero_row_lookups(4,5) by (auto simp: zero_examples)
qed

end
